theory Spec2Isabelle
  imports Main
begin

section \<open>Errors\<close>

text \<open>
  Go errors as values. \<open>ErrorString\<close> is \<^verbatim>\<open>errors.New\<close>; \<open>ErrNoRows\<close> is the sentinel
  \<^verbatim>\<open>sql.ErrNoRows\<close> (compared by identity in Go, hence a constructor of its own);
  \<open>WrapError p e\<close> is \<^verbatim>\<open>fmt.Errorf(p + "%w", e)\<close> for a non-nil \<open>e\<close>.

  Modelled from the spec: the declarations of \<^verbatim>\<open>service.HTTPStatusError\<close> and
  \<^verbatim>\<open>mdm.ParseError\<close> are not among the sources; section 7 of the specification gives them as
  \<^verbatim>\<open>HTTPStatusError{status, cause}\<close> and \<^verbatim>\<open>ParseError{content}\<close>, each carrying a wrapped
  cause (which, being a Go \<^verbatim>\<open>error\<close>, may be nil).
\<close>

datatype error =
    ErrorString string
  | ErrNoRows
  | WrapError string error
  | HTTPStatusError int "error option"
  | ParseError "error option" string

text \<open>
  \<^verbatim>\<open>errors.Is(err, sql.ErrNoRows)\<close>: walks the chain of \<open>err\<close> and compares each error with
  the sentinel; a nil \<open>err\<close> matches nothing.
\<close>

fun chain_has_ErrNoRows :: "error \<Rightarrow> bool" where
  "chain_has_ErrNoRows (ErrorString s) = False"
| "chain_has_ErrNoRows ErrNoRows = True"
| "chain_has_ErrNoRows (WrapError p e) = chain_has_ErrNoRows e"
| "chain_has_ErrNoRows (HTTPStatusError st None) = False"
| "chain_has_ErrNoRows (HTTPStatusError st (Some e)) = chain_has_ErrNoRows e"
| "chain_has_ErrNoRows (ParseError None content) = False"
| "chain_has_ErrNoRows (ParseError (Some e) content) = chain_has_ErrNoRows e"

definition Is_ErrNoRows :: "error option \<Rightarrow> bool" where
  "Is_ErrNoRows err = (case err of None \<Rightarrow> False | Some e \<Rightarrow> chain_has_ErrNoRows e)"

text \<open>
  \<^verbatim>\<open>errors.As(err, &statusErr)\<close> with \<^verbatim>\<open>statusErr *service.HTTPStatusError\<close>: the first
  error of the chain that is an \<open>HTTPStatusError\<close>, as its status and cause.
\<close>

fun As_HTTPStatusError :: "error \<Rightarrow> (int \<times> error option) option" where
  "As_HTTPStatusError (ErrorString s) = None"
| "As_HTTPStatusError ErrNoRows = None"
| "As_HTTPStatusError (WrapError p e) = As_HTTPStatusError e"
| "As_HTTPStatusError (HTTPStatusError st c) = Some (st, c)"
| "As_HTTPStatusError (ParseError None content) = None"
| "As_HTTPStatusError (ParseError (Some e) content) = As_HTTPStatusError e"

text \<open>
  \<^verbatim>\<open>errors.As(err, &parseErr)\<close> with \<^verbatim>\<open>parseErr *mdm.ParseError\<close>: the first error of the
  chain that is a \<open>ParseError\<close>, as its cause and content.
\<close>

fun As_ParseError :: "error \<Rightarrow> (error option \<times> string) option" where
  "As_ParseError (ErrorString s) = None"
| "As_ParseError ErrNoRows = None"
| "As_ParseError (WrapError p e) = As_ParseError e"
| "As_ParseError (HTTPStatusError st None) = None"
| "As_ParseError (HTTPStatusError st (Some e)) = As_ParseError e"
| "As_ParseError (ParseError c content) = Some (c, content)"

text \<open>
  \<^verbatim>\<open>fmt.Errorf(p + "%w", e)\<close>. With a nil operand the verb \<^verbatim>\<open>%w\<close> wraps nothing: the
  result is a plain error whose text ends in \<^verbatim>\<open>%!w(<nil>)\<close>.
\<close>

definition Errorf_w :: "string \<Rightarrow> error option \<Rightarrow> error" where
  "Errorf_w p e = (case e of None \<Rightarrow> ErrorString (p @ ''%!w(<nil>)'') | Some e' \<Rightarrow> WrapError p e')"

text \<open>A Go call either returns or panics.\<close>

datatype 'a outcome = Panic string | Return 'a

section \<open>The MDM request\<close>

text \<open>
  Modelled from the spec: the type \<^verbatim>\<open>mdm.EnrollType\<close> is not among the sources; section 3 of
  the specification lists its values.
\<close>

datatype mdm_EnrollType = Device | User | UserEnrollment | UserEnrollmentDevice

text \<open>\<^verbatim>\<open>mdm.EnrollID\<close>, with the three fields that \<^verbatim>\<open>normalize\<close> sets.\<close>

record mdm_EnrollID =
  Type :: mdm_EnrollType
  ID :: string
  ParentID :: string

text \<open>
  \<^verbatim>\<open>mdm.Request\<close>: the embedded pointer \<^verbatim>\<open>*EnrollID\<close> (nil is \<open>None\<close>), the client
  certificate (nil is \<open>None\<close>) and the map \<^verbatim>\<open>Params\<close> (a nil map is \<open>None\<close>). The request's
  \<^verbatim>\<open>context.Context\<close> carries cancellation and log context only and is left out.
\<close>

record mdm_Request =
  EnrollID :: "mdm_EnrollID option"
  Certificate :: "string option"
  Params :: "(string \<rightharpoonup> string) option"

text \<open>
  \<^verbatim>\<open>r.ID\<close> reads through the embedded pointer: on a request without an \<^verbatim>\<open>EnrollID\<close> this is
  a nil pointer dereference.
\<close>

definition Request_ID :: "mdm_Request \<Rightarrow> string outcome" where
  "Request_ID r =
     (case EnrollID r of
        None \<Rightarrow> Panic ''invalid memory address or nil pointer dereference''
      | Some eid \<Rightarrow> Return (ID eid))"

section \<open>PostgreSQL storage of certificate associations\<close>

text \<open>
  Modelled from the spec: the schema is not among the sources; section 6 of the specification
  gives the table as \<^verbatim>\<open>cert_auth_associations(id PK part, sha256 PK part, created_at, updated_at)\<close>.
  A table is the list of its rows; the primary key \<^verbatim>\<open>cert_auth_associations_pkey\<close> says that no
  two rows agree on \<open>(id, sha256)\<close>. Timestamps are natural numbers.
\<close>

record cert_auth_row =
  row_id :: string
  row_sha256 :: string
  created_at :: nat
  updated_at :: nat

type_synonym cert_auth_associations = "cert_auth_row list"

definition cert_auth_associations_pkey :: "cert_auth_associations \<Rightarrow> bool" where
  "cert_auth_associations_pkey t = distinct (map (\<lambda>row. (row_id row, row_sha256 row)) t)"

text \<open>
  \<^verbatim>\<open>strings.ToLower\<close>: a string of ASCII bytes only has its letters \<^verbatim>\<open>A\<close> to \<^verbatim>\<open>Z\<close> moved
  to lower case byte by byte; any other string goes through the Unicode tables
  (\<^verbatim>\<open>Map(unicode.ToLower, s)\<close>), which are taken as the parameter \<open>ul\<close>.
\<close>

definition ascii_lower :: "char \<Rightarrow> char" where
  "ascii_lower c =
     (if (65::nat) \<le> of_char c \<and> of_char c \<le> (90::nat) then char_of (of_char c + (32::nat)) else c)"

definition isASCII :: "string \<Rightarrow> bool" where
  "isASCII s = list_all (\<lambda>c. of_char c < (128::nat)) s"

definition ToLower :: "(string \<Rightarrow> string) \<Rightarrow> string \<Rightarrow> string" where
  "ToLower ul s = (if isASCII s then map ascii_lower s else ul s)"

text \<open>
  \<^verbatim>\<open>queryRowContextRowExists\<close> runs a \<^verbatim>\<open>SELECT COUNT(*)\<close> and scans the count into
  \<^verbatim>\<open>ct\<close>. The argument \<open>io\<close> is the failure of the database call, if any (a lost connection, a
  cancelled context); then nothing is scanned and \<^verbatim>\<open>ct\<close> keeps its zero value.
  The \<^verbatim>\<open>WHERE\<close> clause is the predicate \<open>sel\<close>.
\<close>

definition queryRowContextRowExists ::
  "error option \<Rightarrow> (cert_auth_row \<Rightarrow> bool) \<Rightarrow> cert_auth_associations \<Rightarrow> bool \<times> error option" where
  "queryRowContextRowExists io sel t =
     (let ct = (case io of None \<Rightarrow> length (filter sel t) | Some e \<Rightarrow> 0)
      in (0 < ct, io))"

definition EnrollmentHasCertHash ::
  "error option \<Rightarrow> mdm_Request \<Rightarrow> string \<Rightarrow> cert_auth_associations \<Rightarrow> (bool \<times> error option) outcome" where
  "EnrollmentHasCertHash io r h t =
     (case Request_ID r of
        Panic p \<Rightarrow> Panic p
      | Return rid \<Rightarrow> Return (queryRowContextRowExists io (\<lambda>row. row_id row = rid) t))"

definition HasCertHash ::
  "(string \<Rightarrow> string) \<Rightarrow> error option \<Rightarrow> mdm_Request \<Rightarrow> string \<Rightarrow> cert_auth_associations
     \<Rightarrow> bool \<times> error option" where
  "HasCertHash ul io r hash t =
     queryRowContextRowExists io (\<lambda>row. row_sha256 row = ToLower ul hash) t"

definition IsCertHashAssociated ::
  "(string \<Rightarrow> string) \<Rightarrow> error option \<Rightarrow> mdm_Request \<Rightarrow> string \<Rightarrow> cert_auth_associations
     \<Rightarrow> (bool \<times> error option) outcome" where
  "IsCertHashAssociated ul io r hash t =
     (case Request_ID r of
        Panic p \<Rightarrow> Panic p
      | Return rid \<Rightarrow>
          Return (queryRowContextRowExists io
            (\<lambda>row. row_id row = rid \<and> row_sha256 row = ToLower ul hash) t))"

text \<open>
  The statement of \<^verbatim>\<open>AssociateCertHash\<close>:
  \<^verbatim>\<open>INSERT INTO cert_auth_associations (id, sha256) VALUES ($1, $2)
  ON CONFLICT ON CONSTRAINT cert_auth_associations_pkey DO UPDATE SET updated_at=now();\<close>
  A row with the same key has its \<open>updated_at\<close> set to \<open>now\<close>; otherwise a row is appended,
  whose two timestamps are the columns' defaults (taken to be the time of the insertion).
\<close>

definition upsert_cert_auth ::
  "nat \<Rightarrow> string \<Rightarrow> string \<Rightarrow> cert_auth_associations \<Rightarrow> cert_auth_associations" where
  "upsert_cert_auth now i h t =
     (if list_ex (\<lambda>row. row_id row = i \<and> row_sha256 row = h) t
      then map (\<lambda>row. if row_id row = i \<and> row_sha256 row = h
                       then row\<lparr>updated_at := now\<rparr> else row) t
      else t @ [\<lparr>row_id = i, row_sha256 = h, created_at = now, updated_at = now\<rparr>])"

text \<open>
  \<^verbatim>\<open>AssociateCertHash\<close> returns the error of \<^verbatim>\<open>ExecContext\<close>; a failed call changes
  nothing. The result is the error and the table afterwards.
\<close>

definition AssociateCertHash ::
  "(string \<Rightarrow> string) \<Rightarrow> error option \<Rightarrow> nat \<Rightarrow> mdm_Request \<Rightarrow> string \<Rightarrow> cert_auth_associations
     \<Rightarrow> (error option \<times> cert_auth_associations) outcome" where
  "AssociateCertHash ul io now r hash t =
     (case Request_ID r of
        Panic p \<Rightarrow> Panic p
      | Return rid \<Rightarrow>
          (case io of
             Some e \<Rightarrow> Return (Some e, t)
           | None \<Rightarrow> Return (None, upsert_cert_auth now rid (ToLower ul hash) t)))"

text \<open>
  \<^verbatim>\<open>EnrollmentFromHash\<close> runs
  \<^verbatim>\<open>SELECT id FROM cert_auth_associations WHERE sha256 = $1 LIMIT 1;\<close> with the hash as it was
  given. \<open>scan_id\<close> is \<^verbatim>\<open>QueryRowContext(...).Scan(&id)\<close>: the first matching row in the
  table's order, \<^verbatim>\<open>sql.ErrNoRows\<close> when there is none, the failure \<open>io\<close> of the call when it
  has one (\<^verbatim>\<open>id\<close> then keeps its zero value).
\<close>

definition scan_id :: "error option \<Rightarrow> string \<Rightarrow> cert_auth_associations \<Rightarrow> string \<times> error option" where
  "scan_id io hash t =
     (case io of
        Some e \<Rightarrow> ('''', Some e)
      | None \<Rightarrow>
          (case filter (\<lambda>row. row_sha256 row = hash) t of
             [] \<Rightarrow> ('''', Some ErrNoRows)
           | row # _ \<Rightarrow> (row_id row, None)))"

definition EnrollmentFromHash ::
  "error option \<Rightarrow> string \<Rightarrow> cert_auth_associations \<Rightarrow> string \<times> error option" where
  "EnrollmentFromHash io hash t =
     (case scan_id io hash t of
        (i, err) \<Rightarrow> if Is_ErrNoRows err then ('''', None) else (i, err))"

section \<open>Enrollments, messages and commands\<close>

text \<open>
  Modelled from the spec: the type \<^verbatim>\<open>mdm.Enrollment\<close> is not among the sources; section 4.1 of
  the specification names the identifiers of an enrollment block.
\<close>

record mdm_Enrollment =
  UDID :: string
  EnrollmentID :: string
  UserID :: string
  UserShortName :: string

text \<open>
  The resolved enrollment that \<^verbatim>\<open>e.Resolved()\<close> returns, with the four fields that
  \<^verbatim>\<open>normalize\<close> reads.
\<close>

record mdm_Resolved =
  Resolved_Type :: mdm_EnrollType
  DeviceChannelID :: string
  UserChannelID :: string
  IsUserChannel :: bool

text \<open>
  The check-in messages and the command report, each with its embedded enrollment and the
  fields this code reads. Messages of which only the enrollment is read share one type.
\<close>

record mdm_Message =
  Enrollment :: mdm_Enrollment

record mdm_Authenticate = mdm_Message +
  SerialNumber :: string

type_synonym mdm_TokenUpdate = mdm_Message
type_synonym mdm_CheckOut = mdm_Message
type_synonym mdm_SetBootstrapToken = mdm_Message
type_synonym mdm_GetBootstrapToken = mdm_Message

record mdm_UserAuthenticate = mdm_Message +
  DigestResponse :: string

record mdm_DeclarativeManagement = mdm_Message +
  Endpoint :: string

record mdm_GetToken = mdm_Message +
  TokenServiceType :: string

record mdm_CommandResults = mdm_Message +
  CommandUUID :: string
  Status :: string

text \<open>
  \<^verbatim>\<open>mdm.Command\<close>: \<open>cmd_CommandUUID\<close> is \<^verbatim>\<open>cmd.CommandUUID\<close>, \<open>cmd_RequestType\<close> is
  \<^verbatim>\<open>cmd.Command.RequestType\<close>, \<open>cmd_Raw\<close> the property list.
\<close>

record mdm_Command =
  cmd_CommandUUID :: string
  cmd_RequestType :: string
  cmd_Raw :: string

section \<open>Effects\<close>

text \<open>
  What a run does beyond its result is recorded as a list of events, in the order of the
  calls: the log lines (with their key and value arguments), the calls to the storage
  backend and to the optional handlers (with the request and the arguments they were given),
  and the calls on the HTTP response writer.
\<close>

datatype logval = LStr string | LBool bool | LInt int | LErr error

datatype event =
    Debug "logval list"
  | Info "logval list"
  | Call_StoreAuthenticate mdm_Request mdm_Authenticate
  | Call_StoreTokenUpdate mdm_Request mdm_TokenUpdate
  | Call_Disable mdm_Request
  | Call_ClearQueue mdm_Request
  | Call_StoreBootstrapToken mdm_Request mdm_SetBootstrapToken
  | Call_RetrieveBootstrapToken mdm_Request mdm_GetBootstrapToken
  | Call_StoreCommandReport mdm_Request mdm_CommandResults
  | Call_RetrieveNextCommand mdm_Request bool
  | Call_UserAuthenticate mdm_Request mdm_UserAuthenticate
  | Call_DeclarativeManagement mdm_Request mdm_DeclarativeManagement
  | Call_GetToken mdm_Request mdm_GetToken
  | http_Error string int
  | Write string

text \<open>
  A run threads the state \<open>world\<close> of everything behind the interfaces (the storage backend,
  the handlers) and the events so far.
\<close>

record 'w run =
  world :: 'w
  events :: "event list"

definition emit :: "event \<Rightarrow> 'w run \<Rightarrow> 'w run" where
  "emit ev s = s\<lparr>events := events s @ [ev]\<rparr>"

text \<open>A call through an interface: the event, then the operation on the world.\<close>

definition call :: "event \<Rightarrow> ('w \<Rightarrow> 'a \<times> 'w) \<Rightarrow> 'w run \<Rightarrow> 'a \<times> 'w run" where
  "call ev f s = (case f (world s) of (a, w) \<Rightarrow> (a, \<lparr>world = w, events = events s @ [ev]\<rparr>))"

text \<open>The storage operations and handler calls among the events.\<close>

fun is_storage_call :: "event \<Rightarrow> bool" where
  "is_storage_call (Call_StoreAuthenticate r m) = True"
| "is_storage_call (Call_StoreTokenUpdate r m) = True"
| "is_storage_call (Call_Disable r) = True"
| "is_storage_call (Call_ClearQueue r) = True"
| "is_storage_call (Call_StoreBootstrapToken r m) = True"
| "is_storage_call (Call_RetrieveBootstrapToken r m) = True"
| "is_storage_call (Call_StoreCommandReport r m) = True"
| "is_storage_call (Call_RetrieveNextCommand r b) = True"
| "is_storage_call ev = False"

fun is_handler_call :: "event \<Rightarrow> bool" where
  "is_handler_call (Call_UserAuthenticate r m) = True"
| "is_handler_call (Call_DeclarativeManagement r m) = True"
| "is_handler_call (Call_GetToken r m) = True"
| "is_handler_call ev = False"

definition storage_calls :: "event list \<Rightarrow> event list" where
  "storage_calls evs = filter is_storage_call evs"

definition handler_calls :: "event list \<Rightarrow> event list" where
  "handler_calls evs = filter is_handler_call evs"

text \<open>The request a storage or handler call was given.\<close>

fun call_request :: "event \<Rightarrow> mdm_Request option" where
  "call_request (Call_StoreAuthenticate r m) = Some r"
| "call_request (Call_StoreTokenUpdate r m) = Some r"
| "call_request (Call_Disable r) = Some r"
| "call_request (Call_ClearQueue r) = Some r"
| "call_request (Call_StoreBootstrapToken r m) = Some r"
| "call_request (Call_RetrieveBootstrapToken r m) = Some r"
| "call_request (Call_StoreCommandReport r m) = Some r"
| "call_request (Call_RetrieveNextCommand r b) = Some r"
| "call_request (Call_UserAuthenticate r m) = Some r"
| "call_request (Call_DeclarativeManagement r m) = Some r"
| "call_request (Call_GetToken r m) = Some r"
| "call_request ev = None"

text \<open>
  \<open>calls_carry r before after\<close>: the events \<open>after\<close> extend the events \<open>before\<close>, and every
  storage or handler call among the new events was given the request \<open>r\<close>.
\<close>

definition calls_carry :: "mdm_Request \<Rightarrow> event list \<Rightarrow> event list \<Rightarrow> bool" where
  "calls_carry r before after =
     (take (length before) after = before
      \<and> list_all (\<lambda>ev. call_request ev = None \<or> call_request ev = Some r)
           (drop (length before) after))"

section \<open>The NanoMDM service\<close>

text \<open>
  Modelled from the spec: the interface \<^verbatim>\<open>storage.ServiceStore\<close> is not among the sources;
  section 4.5 of the specification lists its operations, and names the flag of
  \<^verbatim>\<open>RetrieveNextCommand(enroll_id, skipNotNow)\<close>. Each operation acts on the world and returns
  its Go results (a nil error is \<open>None\<close>, a nil pointer is \<open>None\<close>).
\<close>

record 'w ServiceStore =
  StoreAuthenticate :: "mdm_Request \<Rightarrow> mdm_Authenticate \<Rightarrow> 'w \<Rightarrow> error option \<times> 'w"
  StoreTokenUpdate :: "mdm_Request \<Rightarrow> mdm_TokenUpdate \<Rightarrow> 'w \<Rightarrow> error option \<times> 'w"
  Disable :: "mdm_Request \<Rightarrow> 'w \<Rightarrow> error option \<times> 'w"
  ClearQueue :: "mdm_Request \<Rightarrow> 'w \<Rightarrow> error option \<times> 'w"
  StoreBootstrapToken :: "mdm_Request \<Rightarrow> mdm_SetBootstrapToken \<Rightarrow> 'w \<Rightarrow> error option \<times> 'w"
  RetrieveBootstrapToken ::
    "mdm_Request \<Rightarrow> mdm_GetBootstrapToken \<Rightarrow> 'w \<Rightarrow> (string option \<times> error option) \<times> 'w"
  StoreCommandReport :: "mdm_Request \<Rightarrow> mdm_CommandResults \<Rightarrow> 'w \<Rightarrow> error option \<times> 'w"
  RetrieveNextCommand ::
    "mdm_Request \<Rightarrow> bool \<Rightarrow> 'w \<Rightarrow> (mdm_Command option \<times> error option) \<times> 'w"

text \<open>
  \<^verbatim>\<open>Service\<close>: the normalizer, the store and the three optional handlers (a nil handler is
  \<open>None\<close>; a handler returning \<^verbatim>\<open>[]byte\<close> returns a string, nil being the empty one). The
  logger is not a field: what is logged is recorded among the events.
\<close>

record 'w Service =
  normalizer :: "mdm_Enrollment \<Rightarrow> mdm_EnrollID option"
  store :: "'w ServiceStore"
  dm :: "(mdm_Request \<Rightarrow> mdm_DeclarativeManagement \<Rightarrow> 'w \<Rightarrow> (string \<times> error option) \<times> 'w) option"
  ua :: "(mdm_Request \<Rightarrow> mdm_UserAuthenticate \<Rightarrow> 'w \<Rightarrow> (string \<times> error option) \<times> 'w) option"
  gt :: "(mdm_Request \<Rightarrow> mdm_GetToken \<Rightarrow> 'w \<Rightarrow> (string option \<times> error option) \<times> 'w) option"

text \<open>
  \<^verbatim>\<open>normalize\<close> (the name \<open>normalize\<close> is taken in HOL). The method \<^verbatim>\<open>Resolved\<close> of
  \<^verbatim>\<open>mdm.Enrollment\<close> is not among the sources and is the parameter \<open>Resolved\<close> (a nil result is
  \<open>None\<close>). \<^verbatim>\<open>ParentID\<close> starts as Go's zero value,
  the empty string.
\<close>

definition normalize_enrollment ::
  "(mdm_Enrollment \<Rightarrow> mdm_Resolved option) \<Rightarrow> mdm_Enrollment \<Rightarrow> mdm_EnrollID option" where
  "normalize_enrollment Resolved e =
     (case Resolved e of
        None \<Rightarrow> None
      | Some r \<Rightarrow>
          (let eid = \<lparr>Type = Resolved_Type r, ID = DeviceChannelID r, ParentID = ''''\<rparr>
           in Some (if IsUserChannel r
                    then eid\<lparr>ID := ID eid @ '':'' @ UserChannelID r, ParentID := DeviceChannelID r\<rparr>
                    else eid)))"

definition WithDeclarativeManagement ::
  "(mdm_Request \<Rightarrow> mdm_DeclarativeManagement \<Rightarrow> 'w \<Rightarrow> (string \<times> error option) \<times> 'w) option
     \<Rightarrow> 'w Service \<Rightarrow> 'w Service" where
  "WithDeclarativeManagement h s = s\<lparr>dm := h\<rparr>"

definition WithUserAuthenticate ::
  "(mdm_Request \<Rightarrow> mdm_UserAuthenticate \<Rightarrow> 'w \<Rightarrow> (string \<times> error option) \<times> 'w) option
     \<Rightarrow> 'w Service \<Rightarrow> 'w Service" where
  "WithUserAuthenticate h s = s\<lparr>ua := h\<rparr>"

definition WithGetToken ::
  "(mdm_Request \<Rightarrow> mdm_GetToken \<Rightarrow> 'w \<Rightarrow> (string option \<times> error option) \<times> 'w) option
     \<Rightarrow> 'w Service \<Rightarrow> 'w Service" where
  "WithGetToken h s = s\<lparr>gt := h\<rparr>"

text \<open>\<^verbatim>\<open>New\<close>: the options are applied in order to a service without handlers.\<close>

definition New ::
  "(mdm_Enrollment \<Rightarrow> mdm_Resolved option) \<Rightarrow> 'w ServiceStore \<Rightarrow> ('w Service \<Rightarrow> 'w Service) list
     \<Rightarrow> 'w Service" where
  "New Resolved st opts =
     fold (\<lambda>opt nanomdm. opt nanomdm) opts
       \<lparr>normalizer = normalize_enrollment Resolved, store = st, dm = None, ua = None, gt = None\<rparr>"

text \<open>
  \<^verbatim>\<open>setupRequest\<close>. The method \<^verbatim>\<open>Validate\<close> of \<^verbatim>\<open>*mdm.EnrollID\<close> is not among the sources and
  is the parameter \<open>Validate\<close>; it is called on the pointer, which may be nil. The request is
  returned with the new \<^verbatim>\<open>EnrollID\<close> in either case.
\<close>

definition setupRequest ::
  "(mdm_EnrollID option \<Rightarrow> error option) \<Rightarrow> 'w Service \<Rightarrow> mdm_Request \<Rightarrow> mdm_Enrollment \<Rightarrow> 'w run
     \<Rightarrow> (mdm_Request \<times> error option) \<times> 'w run" where
  "setupRequest Validate s r e run0 =
     (let run1 = (if (case EnrollID r of None \<Rightarrow> False | Some eid \<Rightarrow> ID eid \<noteq> '''')
                  then emit (Debug [LStr ''msg'', LStr ''overwriting enrollment id'']) run0
                  else run0);
          r1 = r\<lparr>EnrollID := normalizer s e\<rparr>
      in ((r1, Validate (EnrollID r1)), run1))"

text \<open>\<^verbatim>\<open>Authenticate\<close>. The result is the returned error and the run afterwards.\<close>

definition Authenticate ::
  "(mdm_EnrollID option \<Rightarrow> error option) \<Rightarrow> 'w Service \<Rightarrow> mdm_Request \<Rightarrow> mdm_Authenticate \<Rightarrow> 'w run
     \<Rightarrow> error option \<times> 'w run" where
  "Authenticate Validate s r0 message run0 =
     (case setupRequest Validate s r0 (Enrollment message) run0 of
        ((r, Some err), run1) \<Rightarrow> (Some err, run1)
      | ((r, None), run1) \<Rightarrow>
          (let logs = [LStr ''msg'', LStr ''Authenticate''];
               logs = (if SerialNumber message \<noteq> ''''
                       then logs @ [LStr ''serial_number'', LStr (SerialNumber message)] else logs);
               run2 = emit (Info logs) run1
           in case call (Call_StoreAuthenticate r message) (StoreAuthenticate (store s) r message) run2 of
                (Some err, run3) \<Rightarrow> (Some err, run3)
              | (None, run3) \<Rightarrow>
                  (case call (Call_ClearQueue r) (ClearQueue (store s) r) run3 of
                     (Some err, run4) \<Rightarrow> (Some err, run4)
                   | (None, run4) \<Rightarrow> call (Call_Disable r) (Disable (store s) r) run4)))"

definition TokenUpdate ::
  "(mdm_EnrollID option \<Rightarrow> error option) \<Rightarrow> 'w Service \<Rightarrow> mdm_Request \<Rightarrow> mdm_TokenUpdate \<Rightarrow> 'w run
     \<Rightarrow> error option \<times> 'w run" where
  "TokenUpdate Validate s r0 message run0 =
     (case setupRequest Validate s r0 (Enrollment message) run0 of
        ((r, Some err), run1) \<Rightarrow> (Some err, run1)
      | ((r, None), run1) \<Rightarrow>
          call (Call_StoreTokenUpdate r message) (StoreTokenUpdate (store s) r message)
            (emit (Info [LStr ''msg'', LStr ''TokenUpdate'']) run1))"

definition CheckOut ::
  "(mdm_EnrollID option \<Rightarrow> error option) \<Rightarrow> 'w Service \<Rightarrow> mdm_Request \<Rightarrow> mdm_CheckOut \<Rightarrow> 'w run
     \<Rightarrow> error option \<times> 'w run" where
  "CheckOut Validate s r0 message run0 =
     (case setupRequest Validate s r0 (Enrollment message) run0 of
        ((r, Some err), run1) \<Rightarrow> (Some err, run1)
      | ((r, None), run1) \<Rightarrow>
          call (Call_Disable r) (Disable (store s) r)
            (emit (Info [LStr ''msg'', LStr ''CheckOut'']) run1))"

text \<open>\<^verbatim>\<open>UserAuthenticate\<close>. The result is the returned bytes and error, and the run afterwards.\<close>

definition UserAuthenticate ::
  "(mdm_EnrollID option \<Rightarrow> error option) \<Rightarrow> 'w Service \<Rightarrow> mdm_Request \<Rightarrow> mdm_UserAuthenticate \<Rightarrow> 'w run
     \<Rightarrow> (string \<times> error option) \<times> 'w run" where
  "UserAuthenticate Validate s r0 message run0 =
     (case setupRequest Validate s r0 (Enrollment message) run0 of
        ((r, Some err), run1) \<Rightarrow> (('''', Some err), run1)
      | ((r, None), run1) \<Rightarrow>
          (let run2 = emit (Info [LStr ''msg'', LStr ''UserAuthenticate'',
                                  LStr ''digest_response'', LBool (DigestResponse message \<noteq> '''')]) run1
           in case ua s of
                None \<Rightarrow> (('''', Some (ErrorString ''no UserAuthenticate handler'')), run2)
              | Some h \<Rightarrow> call (Call_UserAuthenticate r message) (h r message) run2))"

definition SetBootstrapToken ::
  "(mdm_EnrollID option \<Rightarrow> error option) \<Rightarrow> 'w Service \<Rightarrow> mdm_Request \<Rightarrow> mdm_SetBootstrapToken \<Rightarrow> 'w run
     \<Rightarrow> error option \<times> 'w run" where
  "SetBootstrapToken Validate s r0 message run0 =
     (case setupRequest Validate s r0 (Enrollment message) run0 of
        ((r, Some err), run1) \<Rightarrow> (Some err, run1)
      | ((r, None), run1) \<Rightarrow>
          call (Call_StoreBootstrapToken r message) (StoreBootstrapToken (store s) r message)
            (emit (Info [LStr ''msg'', LStr ''SetBootstrapToken'']) run1))"

definition GetBootstrapToken ::
  "(mdm_EnrollID option \<Rightarrow> error option) \<Rightarrow> 'w Service \<Rightarrow> mdm_Request \<Rightarrow> mdm_GetBootstrapToken \<Rightarrow> 'w run
     \<Rightarrow> (string option \<times> error option) \<times> 'w run" where
  "GetBootstrapToken Validate s r0 message run0 =
     (case setupRequest Validate s r0 (Enrollment message) run0 of
        ((r, Some err), run1) \<Rightarrow> ((None, Some err), run1)
      | ((r, None), run1) \<Rightarrow>
          call (Call_RetrieveBootstrapToken r message) (RetrieveBootstrapToken (store s) r message)
            (emit (Info [LStr ''msg'', LStr ''GetBootstrapToken'']) run1))"

definition DeclarativeManagement ::
  "(mdm_EnrollID option \<Rightarrow> error option) \<Rightarrow> 'w Service \<Rightarrow> mdm_Request \<Rightarrow> mdm_DeclarativeManagement
     \<Rightarrow> 'w run \<Rightarrow> (string \<times> error option) \<times> 'w run" where
  "DeclarativeManagement Validate s r0 message run0 =
     (case setupRequest Validate s r0 (Enrollment message) run0 of
        ((r, Some err), run1) \<Rightarrow> (('''', Some err), run1)
      | ((r, None), run1) \<Rightarrow>
          (let run2 = emit (Info [LStr ''msg'', LStr ''DeclarativeManagement'',
                                  LStr ''endpoint'', LStr (Endpoint message)]) run1
           in case dm s of
                None \<Rightarrow> (('''', Some (ErrorString ''no Declarative Management handler'')), run2)
              | Some h \<Rightarrow> call (Call_DeclarativeManagement r message) (h r message) run2))"

definition GetToken ::
  "(mdm_EnrollID option \<Rightarrow> error option) \<Rightarrow> 'w Service \<Rightarrow> mdm_Request \<Rightarrow> mdm_GetToken \<Rightarrow> 'w run
     \<Rightarrow> (string option \<times> error option) \<times> 'w run" where
  "GetToken Validate s r0 message run0 =
     (case setupRequest Validate s r0 (Enrollment message) run0 of
        ((r, Some err), run1) \<Rightarrow> ((None, Some err), run1)
      | ((r, None), run1) \<Rightarrow>
          (let run2 = emit (Info [LStr ''msg'', LStr ''GetToken'',
                                  LStr ''token_service_type'', LStr (TokenServiceType message)]) run1
           in case gt s of
                None \<Rightarrow> ((None, Some (ErrorString ''no GetToken handler'')), run2)
              | Some h \<Rightarrow> call (Call_GetToken r message) (h r message) run2))"

text \<open>
  \<^verbatim>\<open>CommandAndReportResults\<close>. The result is the returned command and error, and the run
  afterwards. The second argument of \<^verbatim>\<open>RetrieveNextCommand\<close> is \<^verbatim>\<open>results.Status == "NotNow"\<close>.
\<close>

definition CommandAndReportResults ::
  "(mdm_EnrollID option \<Rightarrow> error option) \<Rightarrow> 'w Service \<Rightarrow> mdm_Request \<Rightarrow> mdm_CommandResults \<Rightarrow> 'w run
     \<Rightarrow> (mdm_Command option \<times> error option) \<times> 'w run" where
  "CommandAndReportResults Validate s r0 results run0 =
     (case setupRequest Validate s r0 (Enrollment results) run0 of
        ((r, Some err), run1) \<Rightarrow> ((None, Some err), run1)
      | ((r, None), run1) \<Rightarrow>
          (let logs = [LStr ''status'', LStr (Status results)];
               logs = (if CommandUUID results \<noteq> ''''
                       then logs @ [LStr ''command_uuid'', LStr (CommandUUID results)] else logs);
               run2 = emit (Info logs) run1
           in case call (Call_StoreCommandReport r results) (StoreCommandReport (store s) r results) run2 of
                (Some err, run3) \<Rightarrow> ((None, Some (Errorf_w ''storing command report: '' (Some err))), run3)
              | (None, run3) \<Rightarrow>
                  (case call (Call_RetrieveNextCommand r (Status results = ''NotNow''))
                          (RetrieveNextCommand (store s) r (Status results = ''NotNow'')) run3 of
                     ((cmd, Some err), run4) \<Rightarrow>
                        ((None, Some (Errorf_w ''retrieving next command: '' (Some err))), run4)
                   | ((Some cmd, None), run4) \<Rightarrow>
                        ((Some cmd, None),
                         emit (Debug [LStr ''msg'', LStr ''command retrieved'',
                                      LStr ''command_uuid'', LStr (cmd_CommandUUID cmd),
                                      LStr ''request_type'', LStr (cmd_RequestType cmd)]) run4)
                   | ((None, None), run4) \<Rightarrow>
                        ((None, None), emit (Debug [LStr ''msg'', LStr ''no command retrieved'']) run4))))"

section \<open>The HTTP handlers\<close>

text \<open>
  What the handlers read of an incoming \<^verbatim>\<open>http.Request\<close>: the parsed query \<^verbatim>\<open>r.URL.Query()\<close>
  (a \<^verbatim>\<open>map[string][]string\<close>, given as its entries in the order the loop visits them, one per
  key), the certificate \<^verbatim>\<open>GetCert(r.Context())\<close>, and the outcome of
  \<^verbatim>\<open>mdmhttp.ReadAllAndReplaceBody(r)\<close> (\<open>Inl\<close> its error, \<open>Inr\<close> the bytes).
\<close>

record http_Request =
  URL_Query :: "(string \<times> string list) list"
  GetCert :: "string option"
  ReadAllAndReplaceBody :: "error + string"

text \<open>
  The loop of \<^verbatim>\<open>RequestFromHTTP\<close>: \<^verbatim>\<open>m.Params[k] = v[0]\<close> for each entry. Indexing an empty
  slice panics.
\<close>

fun copy_params ::
  "(string \<times> string list) list \<Rightarrow> (string \<rightharpoonup> string) \<Rightarrow> (string \<rightharpoonup> string) outcome" where
  "copy_params [] m = Return m"
| "copy_params ((k, v) # q) m =
     (case v of
        [] \<Rightarrow> Panic ''index out of range [0] with length 0''
      | x # xs \<Rightarrow> copy_params q (m(k \<mapsto> x)))"

text \<open>
  \<^verbatim>\<open>RequestFromHTTP\<close>. \<^verbatim>\<open>mdm.NewRequestWithContext\<close> gives a request with the certificate and
  nothing else set.
\<close>

definition RequestFromHTTP :: "http_Request \<Rightarrow> mdm_Request outcome" where
  "RequestFromHTTP r =
     (let m = \<lparr>EnrollID = None, Certificate = GetCert r, Params = None\<rparr>;
          q = URL_Query r
      in if 0 < length q
         then (case copy_params q Map.empty of
                 Panic p \<Rightarrow> Panic p
               | Return ps \<Rightarrow> Return (m\<lparr>Params := Some ps\<rparr>))
         else Return m)"

text \<open>\<^verbatim>\<open>http.StatusInternalServerError\<close>.\<close>

definition StatusInternalServerError :: int where
  "StatusInternalServerError = 500"

text \<open>
  What serving a request comes to: the handler returned, or it panicked; in either case the
  run holds what had happened until then.
\<close>

datatype 'w served = Panicked string "'w run" | Served "'w run"

text \<open>
  \<^verbatim>\<open>http.Error(w, text, code)\<close> sets headers, calls \<^verbatim>\<open>w.WriteHeader(code)\<close> and prints the
  text. \<^verbatim>\<open>WriteHeader\<close> of net/http panics on a code below 100 or above 999 (its
  \<^verbatim>\<open>checkWriteHeaderCode\<close>), before anything is written.
\<close>

definition call_http_Error :: "string \<Rightarrow> int \<Rightarrow> 'w run \<Rightarrow> 'w served" where
  "call_http_Error text code s =
     (if code < 100 \<or> 999 < code
      then Panicked ''invalid WriteHeader code'' s
      else Served (emit (http_Error text code) s))"

text \<open>
  The branch \<^verbatim>\<open>if err != nil\<close> that \<^verbatim>\<open>CheckinHandler\<close> and
  \<^verbatim>\<open>CommandAndReportResultsHandler\<close> share word for word but for the logged message \<open>msg\<close>.
  \<open>StatusText\<close> is \<^verbatim>\<open>http.StatusText\<close>. The branch does not return: unless
  \<^verbatim>\<open>http.Error\<close> panicked, the handler goes on to \<^verbatim>\<open>w.Write(respBytes)\<close>.
\<close>

definition service_error ::
  "(int \<Rightarrow> string) \<Rightarrow> string \<Rightarrow> error \<Rightarrow> 'w run \<Rightarrow> 'w served" where
  "service_error StatusText msg err0 s =
     (let logs = [LStr ''msg'', LStr msg];
          httpStatus = StatusInternalServerError;
          (httpStatus, err) =
             (case As_HTTPStatusError err0 of
                Some (status, cause) \<Rightarrow> (status, Errorf_w ''HTTP error: '' cause)
              | None \<Rightarrow> (httpStatus, err0));
          (logs, err) =
             (case As_ParseError err of
                Some (cause, content) \<Rightarrow>
                  (logs @ [LStr ''content'', LStr content], Errorf_w ''parse error: '' cause)
              | None \<Rightarrow> (logs, err));
          logs = logs @ [LStr ''http_status'', LInt httpStatus, LStr ''err'', LErr err]
      in call_http_Error (StatusText httpStatus) httpStatus (emit (Info logs) s))"

text \<open>
  The function that \<^verbatim>\<open>CheckinHandler\<close> returns. \<open>svc\<close> stands for
  \<^verbatim>\<open>service.CheckinRequest(svc, _, _)\<close>, which is not among the sources: from the MDM request and
  the body to the response bytes and the error, acting on the run.
\<close>

definition CheckinHandler_func ::
  "(int \<Rightarrow> string) \<Rightarrow> (mdm_Request \<Rightarrow> string \<Rightarrow> 'w run \<Rightarrow> (string \<times> error option) \<times> 'w run)
     \<Rightarrow> http_Request \<Rightarrow> 'w run \<Rightarrow> 'w served" where
  "CheckinHandler_func StatusText svc r s =
     (case ReadAllAndReplaceBody r of
        Inl err \<Rightarrow>
          call_http_Error (StatusText StatusInternalServerError) StatusInternalServerError
            (emit (Info [LStr ''msg'', LStr ''reading body'', LStr ''err'', LErr err]) s)
      | Inr bodyBytes \<Rightarrow>
          (case RequestFromHTTP r of
             Panic p \<Rightarrow> Panicked p s
           | Return m \<Rightarrow>
               (case svc m bodyBytes s of
                  ((respBytes, None), s1) \<Rightarrow> Served (emit (Write respBytes) s1)
                | ((respBytes, Some err), s1) \<Rightarrow>
                    (case service_error StatusText ''check-in request'' err s1 of
                       Panicked p s2 \<Rightarrow> Panicked p s2
                     | Served s2 \<Rightarrow> Served (emit (Write respBytes) s2)))))"

text \<open>\<^verbatim>\<open>CheckinHandler\<close>: a nil service or a nil logger panics before any request is served.\<close>

definition CheckinHandler ::
  "(int \<Rightarrow> string) \<Rightarrow> (mdm_Request \<Rightarrow> string \<Rightarrow> 'w run \<Rightarrow> (string \<times> error option) \<times> 'w run) option
     \<Rightarrow> 'l option \<Rightarrow> (http_Request \<Rightarrow> 'w run \<Rightarrow> 'w served) outcome" where
  "CheckinHandler StatusText svc logger =
     (case svc of
        None \<Rightarrow> Panic ''nil service''
      | Some f \<Rightarrow>
          (case logger of
             None \<Rightarrow> Panic ''nil logger''
           | Some l \<Rightarrow> Return (CheckinHandler_func StatusText f)))"


section \<open>Example inputs\<close>

text \<open>
  Concrete inputs at which the theorems below are instantiated. The example resolution takes
  the UDID as the device channel and a non-empty UserID as the user channel; the example
  validation refuses a nil or empty id.
\<close>

definition example_Resolved :: "mdm_Enrollment \<Rightarrow> mdm_Resolved option" where
  "example_Resolved e =
     (if UDID e = '''' then None
      else Some \<lparr>Resolved_Type = (if UserID e = '''' then Device else User),
                 DeviceChannelID = UDID e, UserChannelID = UserID e,
                 IsUserChannel = (UserID e \<noteq> '''')\<rparr>)"

definition example_Validate :: "mdm_EnrollID option \<Rightarrow> error option" where
  "example_Validate eid =
     (case eid of
        None \<Rightarrow> Some (ErrorString ''nil enrollment ID'')
      | Some i \<Rightarrow> if ID i = '''' then Some (ErrorString ''empty enrollment ID'') else None)"

definition device_AAA :: mdm_Enrollment where
  "device_AAA = \<lparr>UDID = ''AAA'', EnrollmentID = '''', UserID = '''', UserShortName = ''''\<rparr>"

definition user_AAA_BBB :: mdm_Enrollment where
  "user_AAA_BBB = \<lparr>UDID = ''AAA'', EnrollmentID = '''', UserID = ''BBB'', UserShortName = ''''\<rparr>"

definition empty_enrollment :: mdm_Enrollment where
  "empty_enrollment = \<lparr>UDID = '''', EnrollmentID = '''', UserID = '''', UserShortName = ''''\<rparr>"

definition fresh_request :: mdm_Request where
  "fresh_request = \<lparr>EnrollID = None, Certificate = None, Params = None\<rparr>"

definition request_AAA :: mdm_Request where
  "request_AAA = \<lparr>EnrollID = Some \<lparr>Type = Device, ID = ''AAA'', ParentID = ''''\<rparr>,
                   Certificate = None, Params = None\<rparr>"

text \<open>
  An example backend whose world is the journal of the operations it ran (with the flag that
  \<^verbatim>\<open>RetrieveNextCommand\<close> was given); every operation succeeds, and there is no command to
  hand out. The second backend fails in
  \<^verbatim>\<open>ClearQueue\<close>.
\<close>

definition journal_store :: "string list ServiceStore" where
  "journal_store =
     \<lparr>StoreAuthenticate = (\<lambda>r m w. (None, w @ [''StoreAuthenticate''])),
      StoreTokenUpdate = (\<lambda>r m w. (None, w @ [''StoreTokenUpdate''])),
      Disable = (\<lambda>r w. (None, w @ [''Disable''])),
      ClearQueue = (\<lambda>r w. (None, w @ [''ClearQueue''])),
      StoreBootstrapToken = (\<lambda>r m w. (None, w @ [''StoreBootstrapToken''])),
      RetrieveBootstrapToken = (\<lambda>r m w. ((None, None), w @ [''RetrieveBootstrapToken''])),
      StoreCommandReport = (\<lambda>r m w. (None, w @ [''StoreCommandReport''])),
      RetrieveNextCommand =
        (\<lambda>r skipNotNow w.
           ((None, None),
            w @ [if skipNotNow then ''RetrieveNextCommand skipNotNow'' else ''RetrieveNextCommand'']))\<rparr>"

definition failing_store :: "string list ServiceStore" where
  "failing_store = journal_store\<lparr>ClearQueue := (\<lambda>r w. (Some (ErrorString ''clear queue''), w))\<rparr>"

definition example_service :: "string list Service" where
  "example_service = New example_Resolved journal_store []"

definition echo_ua ::
  "mdm_Request \<Rightarrow> mdm_UserAuthenticate \<Rightarrow> string list \<Rightarrow> (string \<times> error option) \<times> string list" where
  "echo_ua r m w = ((DigestResponse m, None), w @ [''UserAuthenticate''])"

definition service_with_ua :: "string list Service" where
  "service_with_ua = New example_Resolved journal_store [WithUserAuthenticate (Some echo_ua)]"

definition start :: "string list run" where
  "start = \<lparr>world = [], events = []\<rparr>"

definition report_NotNow :: mdm_CommandResults where
  "report_NotNow = \<lparr>Enrollment = device_AAA, CommandUUID = ''U1'', Status = ''NotNow''\<rparr>"

definition report_Acknowledged :: mdm_CommandResults where
  "report_Acknowledged = \<lparr>Enrollment = device_AAA, CommandUUID = ''U1'', Status = ''Acknowledged''\<rparr>"


definition failing_service :: "string list Service" where
  "failing_service = New example_Resolved failing_store []"

definition authenticate_AAA :: mdm_Authenticate where
  "authenticate_AAA = \<lparr>Enrollment = device_AAA, SerialNumber = ''C02XYZ''\<rparr>"

definition checkout_AAA :: mdm_CheckOut where
  "checkout_AAA = \<lparr>Enrollment = device_AAA\<rparr>"

definition authenticate_empty :: mdm_Authenticate where
  "authenticate_empty = \<lparr>Enrollment = empty_enrollment, SerialNumber = ''''\<rparr>"

definition report_empty :: mdm_CommandResults where
  "report_empty = \<lparr>Enrollment = empty_enrollment, CommandUUID = '''', Status = ''Idle''\<rparr>"

definition user_authenticate_AAA :: mdm_UserAuthenticate where
  "user_authenticate_AAA = \<lparr>Enrollment = device_AAA, DigestResponse = ''abc''\<rparr>"

text \<open>Two incoming requests, and a service call that fails with a given error.\<close>

definition http_no_params :: http_Request where
  "http_no_params = \<lparr>URL_Query = [], GetCert = None, ReadAllAndReplaceBody = Inr ''<plist/>''\<rparr>"

definition http_two_params :: http_Request where
  "http_two_params =
     \<lparr>URL_Query = [(''id'', [''a'', ''b'']), (''x'', [''1''])], GetCert = Some ''DER'',
      ReadAllAndReplaceBody = Inr ''<plist/>''\<rparr>"





definition token_update_AAA :: mdm_TokenUpdate where
  "token_update_AAA = \<lparr>Enrollment = device_AAA\<rparr>"

section \<open>Properties of the certificate association storage\<close>

lemma ToLower_AB12: "ToLower ul ''AB12'' = ''ab12''"
  unfolding ToLower_def by code_simp

lemma ToLower_aB12: "ToLower ul ''aB12'' = ''ab12''"
  unfolding ToLower_def by code_simp

lemma EnrollID_request_AAA:
  "EnrollID request_AAA = Some \<lparr>Type = Device, ID = ''AAA'', ParentID = ''''\<rparr>"
  by (simp add: request_AAA_def)

lemma key_filter_one:
  "distinct (map (\<lambda>row. (row_id row, row_sha256 row)) t) \<Longrightarrow>
   list_ex (\<lambda>row. row_id row = i \<and> row_sha256 row = h) t \<Longrightarrow>
   length (filter (\<lambda>row. row_id row = i \<and> row_sha256 row = h) t) = 1"
proof (induction t)
  case Nil
  then show ?case by simp
next
  case (Cons a t)
  show ?case
  proof (cases "row_id a = i \<and> row_sha256 a = h")
    case True
    with Cons.prems(1) have "\<forall>row \<in> set t. \<not> (row_id row = i \<and> row_sha256 row = h)"
      by (auto simp: image_iff)
    then have "filter (\<lambda>row. row_id row = i \<and> row_sha256 row = h) t = []"
      by (simp add: filter_empty_conv)
    with True show ?thesis by simp
  next
    case False
    with Cons show ?thesis by simp
  qed
qed

lemma touch_keeps_columns:
  "map (\<lambda>row. (row_id row, row_sha256 row, created_at row))
     (map (\<lambda>row. if row_id row = i \<and> row_sha256 row = h then row\<lparr>updated_at := now\<rparr> else row) t)
   = map (\<lambda>row. (row_id row, row_sha256 row, created_at row)) t"
  by (induction t) auto

lemma upsert_keeps_columns:
  "list_ex (\<lambda>row. row_id row = i \<and> row_sha256 row = h) t \<Longrightarrow>
   map (\<lambda>row. (row_id row, row_sha256 row, created_at row)) (upsert_cert_auth now i h t)
     = map (\<lambda>row. (row_id row, row_sha256 row, created_at row)) t"
  by (simp add: upsert_cert_auth_def touch_keeps_columns del: map_map)

lemma upsert_pkey:
  assumes pk: "cert_auth_associations_pkey t"
  shows "cert_auth_associations_pkey (upsert_cert_auth now i h t)"
proof (cases "list_ex (\<lambda>row. row_id row = i \<and> row_sha256 row = h) t")
  case True
  have "map (\<lambda>row. (row_id row, row_sha256 row))
          (map (\<lambda>row. if row_id row = i \<and> row_sha256 row = h then row\<lparr>updated_at := now\<rparr> else row) t)
        = map (\<lambda>row. (row_id row, row_sha256 row)) t"
    by (induction t) auto
  with pk True show ?thesis
    by (simp add: cert_auth_associations_pkey_def upsert_cert_auth_def del: map_map)
next
  case False
  then have "(i, h) \<notin> set (map (\<lambda>row. (row_id row, row_sha256 row)) t)"
    by (auto simp: list_ex_iff)
  with pk False show ?thesis
    by (simp add: cert_auth_associations_pkey_def upsert_cert_auth_def)
qed

lemma upsert_has_key:
  "list_ex (\<lambda>row. row_id row = i \<and> row_sha256 row = h) (upsert_cert_auth now i h t)"
proof (cases "list_ex (\<lambda>row. row_id row = i \<and> row_sha256 row = h) t")
  case True
  then obtain row where row: "row \<in> set t" "row_id row = i" "row_sha256 row = h"
    by (auto simp: list_ex_iff)
  then have "row\<lparr>updated_at := now\<rparr> \<in> set (upsert_cert_auth now i h t)"
    using True by (force simp: upsert_cert_auth_def image_iff)
  moreover have "row_id (row\<lparr>updated_at := now\<rparr>) = i" "row_sha256 (row\<lparr>updated_at := now\<rparr>) = h"
    using row by simp_all
  ultimately show ?thesis unfolding list_ex_iff by blast
next
  case False
  then show ?thesis by (simp add: upsert_cert_auth_def)
qed

lemma upsert_updated_at:
  "list_all (\<lambda>row. updated_at row = now)
     (filter (\<lambda>row. row_id row = i \<and> row_sha256 row = h) (upsert_cert_auth now i h t))"
proof (cases "list_ex (\<lambda>row. row_id row = i \<and> row_sha256 row = h) t")
  case True
  have "list_all (\<lambda>row. updated_at row = now)
     (filter (\<lambda>row. row_id row = i \<and> row_sha256 row = h)
       (map (\<lambda>row. if row_id row = i \<and> row_sha256 row = h then row\<lparr>updated_at := now\<rparr> else row) t))"
    by (induction t) auto
  with True show ?thesis by (simp add: upsert_cert_auth_def)
next
  case False
  then have "filter (\<lambda>row. row_id row = i \<and> row_sha256 row = h) t = []"
    by (auto simp: list_ex_iff filter_empty_conv)
  with False show ?thesis by (simp add: upsert_cert_auth_def)
qed

lemma upsert_others:
  "filter (\<lambda>row. \<not> (row_id row = i \<and> row_sha256 row = h)) (upsert_cert_auth now i h t)
   = filter (\<lambda>row. \<not> (row_id row = i \<and> row_sha256 row = h)) t"
proof -
  have "filter (\<lambda>row. \<not> (row_id row = i \<and> row_sha256 row = h))
          (map (\<lambda>row. if row_id row = i \<and> row_sha256 row = h
                       then row\<lparr>updated_at := now\<rparr> else row) t)
        = filter (\<lambda>row. \<not> (row_id row = i \<and> row_sha256 row = h)) t"
    by (induction t) auto
  then show ?thesis by (simp add: upsert_cert_auth_def)
qed

text \<open>
  Claim C7. \<^verbatim>\<open>AssociateCertHash\<close> is idempotent. On a table that respects its primary key,
  for a request with an enrollment id and any hash, two calls that both reach the database
  succeed; after the first and after the second the table holds exactly one row for the
  enrollment id and the (lower-cased) hash; after the second call that row's \<open>updated_at\<close> is
  the time of the second call; the second call inserts nothing and changes no other column and
  no other row; and the primary key still holds.
\<close>

theorem AssociateCertHash_idempotent:
  assumes pk: "cert_auth_associations_pkey t" and eid: "EnrollID r = Some eid"
  shows "\<exists>t1 t2.
           AssociateCertHash ul None now1 r hash t = Return (None, t1)
         \<and> AssociateCertHash ul None now2 r hash t1 = Return (None, t2)
         \<and> cert_auth_associations_pkey t2
         \<and> length (filter (\<lambda>row. row_id row = ID eid \<and> row_sha256 row = ToLower ul hash) t1) = 1
         \<and> length (filter (\<lambda>row. row_id row = ID eid \<and> row_sha256 row = ToLower ul hash) t2) = 1
         \<and> list_all (\<lambda>row. updated_at row = now2)
              (filter (\<lambda>row. row_id row = ID eid \<and> row_sha256 row = ToLower ul hash) t2)
         \<and> map (\<lambda>row. (row_id row, row_sha256 row, created_at row)) t2
              = map (\<lambda>row. (row_id row, row_sha256 row, created_at row)) t1
         \<and> filter (\<lambda>row. \<not> (row_id row = ID eid \<and> row_sha256 row = ToLower ul hash)) t2
              = filter (\<lambda>row. \<not> (row_id row = ID eid \<and> row_sha256 row = ToLower ul hash)) t1"
proof -
  define h where "h = ToLower ul hash"
  define t1 where "t1 = upsert_cert_auth now1 (ID eid) h t"
  define t2 where "t2 = upsert_cert_auth now2 (ID eid) h t1"
  have c1: "AssociateCertHash ul None now1 r hash t = Return (None, t1)"
    by (simp add: AssociateCertHash_def Request_ID_def eid t1_def h_def)
  have c2: "AssociateCertHash ul None now2 r hash t1 = Return (None, t2)"
    by (simp add: AssociateCertHash_def Request_ID_def eid t2_def h_def)
  have pk1: "cert_auth_associations_pkey t1"
    unfolding t1_def using pk by (rule upsert_pkey)
  have pk2: "cert_auth_associations_pkey t2"
    unfolding t2_def using pk1 by (rule upsert_pkey)
  have ex1: "list_ex (\<lambda>row. row_id row = ID eid \<and> row_sha256 row = h) t1"
    unfolding t1_def by (rule upsert_has_key)
  have ex2: "list_ex (\<lambda>row. row_id row = ID eid \<and> row_sha256 row = h) t2"
    unfolding t2_def by (rule upsert_has_key)
  have one1: "length (filter (\<lambda>row. row_id row = ID eid \<and> row_sha256 row = h) t1) = 1"
    using pk1 ex1 by (simp add: key_filter_one cert_auth_associations_pkey_def)
  have one2: "length (filter (\<lambda>row. row_id row = ID eid \<and> row_sha256 row = h) t2) = 1"
    using pk2 ex2 by (simp add: key_filter_one cert_auth_associations_pkey_def)
  have upd: "list_all (\<lambda>row. updated_at row = now2)
              (filter (\<lambda>row. row_id row = ID eid \<and> row_sha256 row = h) t2)"
    unfolding t2_def by (rule upsert_updated_at)
  have keep: "map (\<lambda>row. (row_id row, row_sha256 row, created_at row)) t2
              = map (\<lambda>row. (row_id row, row_sha256 row, created_at row)) t1"
    unfolding t2_def using ex1 by (rule upsert_keeps_columns)
  have others: "filter (\<lambda>row. \<not> (row_id row = ID eid \<and> row_sha256 row = h)) t2
              = filter (\<lambda>row. \<not> (row_id row = ID eid \<and> row_sha256 row = h)) t1"
    unfolding t2_def by (rule upsert_others)
  from c1 c2 pk2 one1 one2 upd keep others show ?thesis
    unfolding h_def by blast
qed

theorem AssociateCertHash_idempotent_witness:
  "cert_auth_associations_pkey []
   \<and> EnrollID request_AAA = Some \<lparr>Type = Device, ID = ''AAA'', ParentID = ''''\<rparr>
   \<and> AssociateCertHash id None 1 request_AAA ''AB12'' []
       = Return (None, [\<lparr>row_id = ''AAA'', row_sha256 = ''ab12'', created_at = 1, updated_at = 1\<rparr>])
   \<and> AssociateCertHash id None 2 request_AAA ''AB12''
         [\<lparr>row_id = ''AAA'', row_sha256 = ''ab12'', created_at = 1, updated_at = 1\<rparr>]
       = Return (None, [\<lparr>row_id = ''AAA'', row_sha256 = ''ab12'', created_at = 1, updated_at = 2\<rparr>])
   \<and> (\<exists>t1 t2.
           AssociateCertHash id None 1 request_AAA ''AB12'' [] = Return (None, t1)
         \<and> AssociateCertHash id None 2 request_AAA ''AB12'' t1 = Return (None, t2)
         \<and> length (filter (\<lambda>row. row_id row = ''AAA'' \<and> row_sha256 row = ''ab12'') t2) = 1
         \<and> list_all (\<lambda>row. updated_at row = 2)
              (filter (\<lambda>row. row_id row = ''AAA'' \<and> row_sha256 row = ''ab12'') t2))"
proof -
  have pk: "cert_auth_associations_pkey []"
    by (simp add: cert_auth_associations_pkey_def)
  have c1: "AssociateCertHash id None 1 request_AAA ''AB12'' []
       = Return (None, [\<lparr>row_id = ''AAA'', row_sha256 = ''ab12'', created_at = 1, updated_at = 1\<rparr>])"
    by (simp add: AssociateCertHash_def Request_ID_def EnrollID_request_AAA ToLower_AB12
        upsert_cert_auth_def)
  have c2: "AssociateCertHash id None 2 request_AAA ''AB12''
         [\<lparr>row_id = ''AAA'', row_sha256 = ''ab12'', created_at = 1, updated_at = 1\<rparr>]
       = Return (None, [\<lparr>row_id = ''AAA'', row_sha256 = ''ab12'', created_at = 1, updated_at = 2\<rparr>])"
    by (simp add: AssociateCertHash_def Request_ID_def EnrollID_request_AAA ToLower_AB12
        upsert_cert_auth_def)
  from AssociateCertHash_idempotent [OF pk EnrollID_request_AAA, of id 1 "''AB12''" 2]
  have "\<exists>t1 t2.
           AssociateCertHash id None 1 request_AAA ''AB12'' [] = Return (None, t1)
         \<and> AssociateCertHash id None 2 request_AAA ''AB12'' t1 = Return (None, t2)
         \<and> length (filter (\<lambda>row. row_id row = ''AAA'' \<and> row_sha256 row = ''ab12'') t2) = 1
         \<and> list_all (\<lambda>row. updated_at row = 2)
              (filter (\<lambda>row. row_id row = ''AAA'' \<and> row_sha256 row = ''ab12'') t2)"
    unfolding ToLower_AB12 by (simp only: mdm_EnrollID.simps) blast
  with pk EnrollID_request_AAA c1 c2 show ?thesis by blast
qed

lemma count_positive_iff: "(filter P t \<noteq> []) = list_ex P t"
  by (simp add: filter_empty_conv list_ex_iff)

lemma upsert_hashes:
  "row \<in> set (upsert_cert_auth now i h t) \<Longrightarrow>
   row_sha256 row = h \<or> row_sha256 row \<in> row_sha256 ` set t"
  by (auto simp: upsert_cert_auth_def split: if_splits)

text \<open>
  Claim C8. \<^verbatim>\<open>HasCertHash\<close>, \<^verbatim>\<open>IsCertHashAssociated\<close> and \<^verbatim>\<open>AssociateCertHash\<close> lower-case
  their hash argument before matching or storing it. For every hash and table, when the query
  runs, \<^verbatim>\<open>HasCertHash\<close> says whether some row has the lower-cased hash, and
  \<^verbatim>\<open>IsCertHashAssociated\<close> whether some row has the enrollment id and the lower-cased hash;
  \<^verbatim>\<open>AssociateCertHash\<close> leaves a row with the enrollment id and the lower-cased hash and
  changes no row of another key. So two hash strings with the same lower-case form (two
  capitalizations of one hash) give the same result in each of them.
  \<^verbatim>\<open>EnrollmentFromHash\<close> matches the hash as it was given: for a hash that lower-casing changes
  and that no row has, it finds no enrollment after \<^verbatim>\<open>AssociateCertHash\<close> with that same hash;
  so with the upper-case hex string \<^verbatim>\<open>AB12\<close> on the empty table, where the lower-case string
  finds the enrollment.
\<close>

theorem hash_lowercased_except_EnrollmentFromHash:
  "HasCertHash ul None r h t = (list_ex (\<lambda>row. row_sha256 row = ToLower ul h) t, None)
   \<and> (EnrollID r = Some eid \<longrightarrow>
         IsCertHashAssociated ul None r h t
           = Return (list_ex (\<lambda>row. row_id row = ID eid \<and> row_sha256 row = ToLower ul h) t, None)
       \<and> (\<exists>t'. AssociateCertHash ul None now r h t = Return (None, t')
             \<and> list_ex (\<lambda>row. row_id row = ID eid \<and> row_sha256 row = ToLower ul h) t'
             \<and> filter (\<lambda>row. \<not> (row_id row = ID eid \<and> row_sha256 row = ToLower ul h)) t'
                 = filter (\<lambda>row. \<not> (row_id row = ID eid \<and> row_sha256 row = ToLower ul h)) t
             \<and> (ToLower ul h \<noteq> h \<and> \<not> list_ex (\<lambda>row. row_sha256 row = h) t
                  \<longrightarrow> EnrollmentFromHash None h t' = ('''', None))))
   \<and> EnrollmentFromHash None h t
       = (case filter (\<lambda>row. row_sha256 row = h) t of
            [] \<Rightarrow> ('''', None)
          | row # rows \<Rightarrow> (row_id row, None))
   \<and> (ToLower ul h1 = ToLower ul h2 \<longrightarrow>
         HasCertHash ul io r h1 t = HasCertHash ul io r h2 t
       \<and> IsCertHashAssociated ul io r h1 t = IsCertHashAssociated ul io r h2 t
       \<and> AssociateCertHash ul io now r h1 t = AssociateCertHash ul io now r h2 t)
   \<and> (\<exists>t'. AssociateCertHash ul None now request_AAA ''AB12'' [] = Return (None, t')
          \<and> IsCertHashAssociated ul None request_AAA ''AB12'' t' = Return (True, None)
          \<and> EnrollmentFromHash None ''AB12'' t' = ('''', None)
          \<and> EnrollmentFromHash None ''ab12'' t' = (''AAA'', None))"
proof -
  have has: "HasCertHash ul None r h t = (list_ex (\<lambda>row. row_sha256 row = ToLower ul h) t, None)"
    by (simp add: HasCertHash_def queryRowContextRowExists_def count_positive_iff)
  have from_hash: "EnrollmentFromHash None h t
       = (case filter (\<lambda>row. row_sha256 row = h) t of
            [] \<Rightarrow> ('''', None)
          | row # rows \<Rightarrow> (row_id row, None))"
    by (simp add: EnrollmentFromHash_def scan_id_def Is_ErrNoRows_def split: list.splits)
  have bound: "IsCertHashAssociated ul None r h t
           = Return (list_ex (\<lambda>row. row_id row = ID eid \<and> row_sha256 row = ToLower ul h) t, None)
       \<and> (\<exists>t'. AssociateCertHash ul None now r h t = Return (None, t')
             \<and> list_ex (\<lambda>row. row_id row = ID eid \<and> row_sha256 row = ToLower ul h) t'
             \<and> filter (\<lambda>row. \<not> (row_id row = ID eid \<and> row_sha256 row = ToLower ul h)) t'
                 = filter (\<lambda>row. \<not> (row_id row = ID eid \<and> row_sha256 row = ToLower ul h)) t
             \<and> (ToLower ul h \<noteq> h \<and> \<not> list_ex (\<lambda>row. row_sha256 row = h) t
                  \<longrightarrow> EnrollmentFromHash None h t' = ('''', None)))"
    if eid: "EnrollID r = Some eid"
  proof -
    define t' where "t' = upsert_cert_auth now (ID eid) (ToLower ul h) t"
    have a: "IsCertHashAssociated ul None r h t
           = Return (list_ex (\<lambda>row. row_id row = ID eid \<and> row_sha256 row = ToLower ul h) t, None)"
      by (simp add: IsCertHashAssociated_def Request_ID_def eid queryRowContextRowExists_def
          count_positive_iff)
    have b: "AssociateCertHash ul None now r h t = Return (None, t')"
      by (simp add: AssociateCertHash_def Request_ID_def eid t'_def)
    have c: "list_ex (\<lambda>row. row_id row = ID eid \<and> row_sha256 row = ToLower ul h) t'"
      unfolding t'_def by (rule upsert_has_key)
    have d: "filter (\<lambda>row. \<not> (row_id row = ID eid \<and> row_sha256 row = ToLower ul h)) t'
                 = filter (\<lambda>row. \<not> (row_id row = ID eid \<and> row_sha256 row = ToLower ul h)) t"
      unfolding t'_def by (rule upsert_others)
    have e: "EnrollmentFromHash None h t' = ('''', None)"
      if "ToLower ul h \<noteq> h \<and> \<not> list_ex (\<lambda>row. row_sha256 row = h) t"
    proof -
      have "row_sha256 row \<noteq> h" if row: "row \<in> set t'" for row
      proof -
        from row have "row_sha256 row = ToLower ul h \<or> row_sha256 row \<in> row_sha256 ` set t"
          unfolding t'_def by (rule upsert_hashes)
        with \<open>ToLower ul h \<noteq> h \<and> \<not> list_ex (\<lambda>row. row_sha256 row = h) t\<close>
        show ?thesis by (auto simp: list_ex_iff)
      qed
      then have "\<forall>row \<in> set t'. row_sha256 row \<noteq> h"
        by blast
      then have "filter (\<lambda>row. row_sha256 row = h) t' = []"
        by (simp add: filter_empty_conv)
      then show ?thesis
        by (simp add: EnrollmentFromHash_def scan_id_def Is_ErrNoRows_def)
    qed
    from a b c d e show ?thesis by blast
  qed
  have same: "HasCertHash ul io r h1 t = HasCertHash ul io r h2 t
       \<and> IsCertHashAssociated ul io r h1 t = IsCertHashAssociated ul io r h2 t
       \<and> AssociateCertHash ul io now r h1 t = AssociateCertHash ul io now r h2 t"
    if same: "ToLower ul h1 = ToLower ul h2"
  proof (intro conjI)
    show "HasCertHash ul io r h1 t = HasCertHash ul io r h2 t"
      by (simp add: HasCertHash_def same)
    show "IsCertHashAssociated ul io r h1 t = IsCertHashAssociated ul io r h2 t"
      by (cases "Request_ID r") (simp_all add: IsCertHashAssociated_def same)
    show "AssociateCertHash ul io now r h1 t = AssociateCertHash ul io now r h2 t"
      by (cases "Request_ID r"; cases io) (simp_all add: AssociateCertHash_def same)
  qed
  let ?t = "[\<lparr>row_id = ''AAA'', row_sha256 = ''ab12'', created_at = now, updated_at = now\<rparr>]"
  have "AssociateCertHash ul None now request_AAA ''AB12'' [] = Return (None, ?t)"
    by (simp add: AssociateCertHash_def Request_ID_def EnrollID_request_AAA ToLower_AB12
        upsert_cert_auth_def)
  moreover have "IsCertHashAssociated ul None request_AAA ''AB12'' ?t = Return (True, None)"
    by (simp add: IsCertHashAssociated_def Request_ID_def EnrollID_request_AAA ToLower_AB12
        queryRowContextRowExists_def)
  moreover have "EnrollmentFromHash None ''AB12'' ?t = ('''', None)"
    by (simp add: EnrollmentFromHash_def scan_id_def Is_ErrNoRows_def)
  moreover have "EnrollmentFromHash None ''ab12'' ?t = (''AAA'', None)"
    by (simp add: EnrollmentFromHash_def scan_id_def Is_ErrNoRows_def)
  ultimately have literal:
    "\<exists>t'. AssociateCertHash ul None now request_AAA ''AB12'' [] = Return (None, t')
          \<and> IsCertHashAssociated ul None request_AAA ''AB12'' t' = Return (True, None)
          \<and> EnrollmentFromHash None ''AB12'' t' = ('''', None)
          \<and> EnrollmentFromHash None ''ab12'' t' = (''AAA'', None)"
    by blast
  from has from_hash bound same literal show ?thesis by blast
qed

theorem hash_lowercased_except_EnrollmentFromHash_witness:
  "ToLower id ''AB12'' = ToLower id ''aB12''
   \<and> HasCertHash id None request_AAA ''AB12''
        [\<lparr>row_id = ''AAA'', row_sha256 = ''ab12'', created_at = 1, updated_at = 1\<rparr>]
     = HasCertHash id None request_AAA ''aB12''
        [\<lparr>row_id = ''AAA'', row_sha256 = ''ab12'', created_at = 1, updated_at = 1\<rparr>]
   \<and> HasCertHash id None request_AAA ''aB12''
        [\<lparr>row_id = ''AAA'', row_sha256 = ''ab12'', created_at = 1, updated_at = 1\<rparr>]
     = (True, None)
   \<and> HasCertHash id None request_AAA ''AB12''
        [\<lparr>row_id = ''AAA'', row_sha256 = ''cd34'', created_at = 1, updated_at = 1\<rparr>]
     = (False, None)
   \<and> IsCertHashAssociated id None request_AAA ''AB12''
        [\<lparr>row_id = ''AAA'', row_sha256 = ''ab12'', created_at = 1, updated_at = 1\<rparr>]
     = IsCertHashAssociated id None request_AAA ''aB12''
        [\<lparr>row_id = ''AAA'', row_sha256 = ''ab12'', created_at = 1, updated_at = 1\<rparr>]
   \<and> IsCertHashAssociated id None request_AAA ''AB12''
        [\<lparr>row_id = ''BBB'', row_sha256 = ''ab12'', created_at = 1, updated_at = 1\<rparr>]
     = Return (False, None)
   \<and> AssociateCertHash id None 2 request_AAA ''AB12''
        [\<lparr>row_id = ''AAA'', row_sha256 = ''ab12'', created_at = 1, updated_at = 1\<rparr>]
     = AssociateCertHash id None 2 request_AAA ''aB12''
        [\<lparr>row_id = ''AAA'', row_sha256 = ''ab12'', created_at = 1, updated_at = 1\<rparr>]
   \<and> ToLower id ''AB12'' \<noteq> ''AB12''
   \<and> \<not> list_ex (\<lambda>row. row_sha256 row = ''AB12'')
          [\<lparr>row_id = ''BBB'', row_sha256 = ''cd34'', created_at = 1, updated_at = 1\<rparr>]
   \<and> (\<exists>t'. AssociateCertHash id None 2 request_AAA ''AB12''
               [\<lparr>row_id = ''BBB'', row_sha256 = ''cd34'', created_at = 1, updated_at = 1\<rparr>]
             = Return (None, t')
          \<and> EnrollmentFromHash None ''AB12'' t' = ('''', None))"
proof -
  let ?t = "[\<lparr>row_id = ''AAA'', row_sha256 = ''ab12'', created_at = 1::nat, updated_at = 1::nat\<rparr>]"
  let ?u = "[\<lparr>row_id = ''BBB'', row_sha256 = ''ab12'', created_at = 1::nat, updated_at = 1::nat\<rparr>]"
  let ?v = "[\<lparr>row_id = ''BBB'', row_sha256 = ''cd34'', created_at = 1::nat, updated_at = 1::nat\<rparr>]"
  let ?w = "[\<lparr>row_id = ''AAA'', row_sha256 = ''cd34'', created_at = 1::nat, updated_at = 1::nat\<rparr>]"
  have same: "ToLower id ''AB12'' = ToLower id ''aB12''"
    by (simp add: ToLower_AB12 ToLower_aB12)
  have changed: "ToLower id ''AB12'' \<noteq> ''AB12''"
    by (simp add: ToLower_AB12)
  have absent: "\<not> list_ex (\<lambda>row. row_sha256 row = ''AB12'') ?v"
    by simp
  note at_t = hash_lowercased_except_EnrollmentFromHash
      [where ul = id and r = request_AAA and h = "''aB12''" and t = ?t
         and eid = "\<lparr>Type = Device, ID = ''AAA'', ParentID = ''''\<rparr>"
         and ?h1.0 = "''AB12''" and ?h2.0 = "''aB12''" and io = None and now = 2]
  note at_u = hash_lowercased_except_EnrollmentFromHash
      [where ul = id and r = request_AAA and h = "''AB12''" and t = ?u
         and eid = "\<lparr>Type = Device, ID = ''AAA'', ParentID = ''''\<rparr>"]
  note at_v = hash_lowercased_except_EnrollmentFromHash
      [where ul = id and r = request_AAA and h = "''AB12''" and t = ?v
         and eid = "\<lparr>Type = Device, ID = ''AAA'', ParentID = ''''\<rparr>" and now = 2]
  note at_w = hash_lowercased_except_EnrollmentFromHash
      [where ul = id and r = request_AAA and h = "''AB12''" and t = ?w]
  have eq: "HasCertHash id None request_AAA ''AB12'' ?t = HasCertHash id None request_AAA ''aB12'' ?t"
      "IsCertHashAssociated id None request_AAA ''AB12'' ?t
         = IsCertHashAssociated id None request_AAA ''aB12'' ?t"
      "AssociateCertHash id None 2 request_AAA ''AB12'' ?t
         = AssociateCertHash id None 2 request_AAA ''aB12'' ?t"
    using at_t same by blast+
  have found: "HasCertHash id None request_AAA ''aB12'' ?t = (True, None)"
    using at_t by (simp add: ToLower_aB12)
  have not_found: "HasCertHash id None request_AAA ''AB12'' ?w = (False, None)"
    using at_w by (simp add: ToLower_AB12)
  have other_id: "IsCertHashAssociated id None request_AAA ''AB12'' ?u = Return (False, None)"
    using at_u EnrollID_request_AAA by (simp add: ToLower_AB12)
  have lost: "\<exists>t'. AssociateCertHash id None 2 request_AAA ''AB12'' ?v = Return (None, t')
          \<and> EnrollmentFromHash None ''AB12'' t' = ('''', None)"
    using at_v EnrollID_request_AAA changed absent by blast
  from same eq found not_found other_id changed absent lost show ?thesis by blast
qed

text \<open>
  Claim C9. When the query runs and no row has the hash, \<^verbatim>\<open>EnrollmentFromHash\<close> returns the
  empty string and a nil error. It returns a non-nil error only when the query itself failed,
  with an error that is not (and does not wrap) \<^verbatim>\<open>sql.ErrNoRows\<close>; the error returned is
  that failure.
\<close>

theorem EnrollmentFromHash_absent:
  "(io = None \<and> \<not> list_ex (\<lambda>row. row_sha256 row = hash) t
      \<longrightarrow> EnrollmentFromHash io hash t = ('''', None))
   \<and> (snd (EnrollmentFromHash io hash t) = Some e
      \<longrightarrow> io = Some e \<and> \<not> Is_ErrNoRows (Some e))"
proof (intro conjI impI)
  assume "io = None \<and> \<not> list_ex (\<lambda>row. row_sha256 row = hash) t"
  then have "io = None" and "filter (\<lambda>row. row_sha256 row = hash) t = []"
    by (auto simp: list_ex_iff filter_empty_conv)
  then show "EnrollmentFromHash io hash t = ('''', None)"
    by (simp add: EnrollmentFromHash_def scan_id_def Is_ErrNoRows_def)
next
  assume a: "snd (EnrollmentFromHash io hash t) = Some e"
  show "io = Some e"
    using a by (cases io; cases "filter (\<lambda>row. row_sha256 row = hash) t")
      (simp_all add: EnrollmentFromHash_def scan_id_def Is_ErrNoRows_def split: if_splits)
  show "\<not> Is_ErrNoRows (Some e)"
    using a by (cases io; cases "filter (\<lambda>row. row_sha256 row = hash) t")
      (simp_all add: EnrollmentFromHash_def scan_id_def Is_ErrNoRows_def split: if_splits)
qed

theorem EnrollmentFromHash_absent_witness:
  "\<not> list_ex (\<lambda>row. row_sha256 row = ''ab12'')
        [\<lparr>row_id = ''AAA'', row_sha256 = ''cd34'', created_at = 1, updated_at = 1\<rparr>]
   \<and> EnrollmentFromHash None ''ab12''
        [\<lparr>row_id = ''AAA'', row_sha256 = ''cd34'', created_at = 1, updated_at = 1\<rparr>] = ('''', None)
   \<and> snd (EnrollmentFromHash (Some (ErrorString ''connection refused'')) ''ab12'' [])
        = Some (ErrorString ''connection refused'')
   \<and> \<not> Is_ErrNoRows (Some (ErrorString ''connection refused''))
   \<and> EnrollmentFromHash (Some (WrapError ''driver: '' ErrNoRows)) ''ab12'' [] = ('''', None)"
proof -
  have absent: "\<not> list_ex (\<lambda>row. row_sha256 row = ''ab12'')
        [\<lparr>row_id = ''AAA'', row_sha256 = ''cd34'', created_at = 1, updated_at = 1\<rparr>]"
    by simp
  have failed: "snd (EnrollmentFromHash (Some (ErrorString ''connection refused'')) ''ab12'' [])
        = Some (ErrorString ''connection refused'')"
    by (simp add: EnrollmentFromHash_def scan_id_def Is_ErrNoRows_def)
  have wrapped: "EnrollmentFromHash (Some (WrapError ''driver: '' ErrNoRows)) ''ab12'' [] = ('''', None)"
    by (simp add: EnrollmentFromHash_def scan_id_def Is_ErrNoRows_def)
  from EnrollmentFromHash_absent
         [of None "''ab12''"
             "[\<lparr>row_id = ''AAA'', row_sha256 = ''cd34'', created_at = 1, updated_at = 1\<rparr>]"]
       EnrollmentFromHash_absent
         [of "Some (ErrorString ''connection refused'')" "''ab12''" "[]"
             "ErrorString ''connection refused''"]
       absent failed wrapped
  show ?thesis by blast
qed

section \<open>Properties of the service\<close>

lemma storage_calls_append:
  "storage_calls (xs @ ys) = storage_calls xs @ storage_calls ys"
  by (simp add: storage_calls_def)

lemma handler_calls_append:
  "handler_calls (xs @ ys) = handler_calls xs @ handler_calls ys"
  by (simp add: handler_calls_def)

lemma setupRequest_result:
  "\<exists>run1. setupRequest Validate s r e run0
             = ((r\<lparr>EnrollID := normalizer s e\<rparr>, Validate (normalizer s e)), run1)
         \<and> world run1 = world run0
         \<and> storage_calls (events run1) = storage_calls (events run0)
         \<and> handler_calls (events run1) = handler_calls (events run0)"
  by (simp add: setupRequest_def emit_def storage_calls_def handler_calls_def)

lemma setupRequest_fresh:
  "setupRequest Validate s fresh_request e run0
     = ((fresh_request\<lparr>EnrollID := normalizer s e\<rparr>, Validate (normalizer s e)), run0)"
  by (simp add: setupRequest_def fresh_request_def)

lemma call_result:
  "call ev f s = (fst (f (world s)), \<lparr>world = snd (f (world s)), events = events s @ [ev]\<rparr>)"
  by (simp add: call_def split: prod.splits)

lemma normalize_device_AAA:
  "normalize_enrollment example_Resolved device_AAA = Some \<lparr>Type = Device, ID = ''AAA'', ParentID = ''''\<rparr>"
  by (simp add: normalize_enrollment_def example_Resolved_def device_AAA_def)

lemma normalize_user_AAA_BBB:
  "normalize_enrollment example_Resolved user_AAA_BBB = Some \<lparr>Type = User, ID = ''AAA:BBB'', ParentID = ''AAA''\<rparr>"
  by (simp add: normalize_enrollment_def example_Resolved_def user_AAA_BBB_def)

lemma normalize_empty_enrollment: "normalize_enrollment example_Resolved empty_enrollment = None"
  by (simp add: normalize_enrollment_def example_Resolved_def empty_enrollment_def)

lemma example_service_fields:
  "normalizer example_service = normalize_enrollment example_Resolved"
  "store example_service = journal_store"
  "ua example_service = None"
  "dm example_service = None"
  "gt example_service = None"
  by (simp_all add: example_service_def New_def)

lemma service_with_ua_fields:
  "normalizer service_with_ua = normalize_enrollment example_Resolved"
  "store service_with_ua = journal_store"
  "ua service_with_ua = Some echo_ua"
  by (simp_all add: service_with_ua_def New_def WithUserAuthenticate_def)

lemma fresh_request_installed:
  "fresh_request\<lparr>EnrollID := Some \<lparr>Type = Device, ID = ''AAA'', ParentID = ''''\<rparr>\<rparr> = request_AAA"
  by (simp add: fresh_request_def request_AAA_def)

lemma Validate_AAA: "example_Validate (Some \<lparr>Type = Device, ID = ''AAA'', ParentID = ''''\<rparr>) = None"
  by (simp add: example_Validate_def)

text \<open>
  Claim C1, as amended. When normalization passes and \<^verbatim>\<open>StoreCommandReport\<close> returns no error,
  \<^verbatim>\<open>CommandAndReportResults\<close> makes exactly two storage calls, the report and then
  \<^verbatim>\<open>RetrieveNextCommand\<close>, and the skip-NotNow flag it passes is true when and only when the
  reported status is \<^verbatim>\<open>NotNow\<close>: whatever the backend, the world afterwards is the one that
  \<^verbatim>\<open>RetrieveNextCommand\<close> leaves when it is given the normalized request and that flag on the
  world the report left, and the result is its command, or its error wrapped.
\<close>

theorem CommandAndReportResults_skipNotNow:
  assumes "Validate (normalizer s (Enrollment results)) = None"
    and "fst (StoreCommandReport (store s) (r0\<lparr>EnrollID := normalizer s (Enrollment results)\<rparr>)
               results (world run0)) = None"
  shows "storage_calls (events (snd (CommandAndReportResults Validate s r0 results run0)))
         = storage_calls (events run0)
           @ [Call_StoreCommandReport (r0\<lparr>EnrollID := normalizer s (Enrollment results)\<rparr>) results,
              Call_RetrieveNextCommand (r0\<lparr>EnrollID := normalizer s (Enrollment results)\<rparr>)
                (Status results = ''NotNow'')]
       \<and> world (snd (CommandAndReportResults Validate s r0 results run0))
         = snd (RetrieveNextCommand (store s) (r0\<lparr>EnrollID := normalizer s (Enrollment results)\<rparr>)
                  (Status results = ''NotNow'')
                  (snd (StoreCommandReport (store s)
                          (r0\<lparr>EnrollID := normalizer s (Enrollment results)\<rparr>) results (world run0))))
       \<and> fst (CommandAndReportResults Validate s r0 results run0)
         = (case fst (RetrieveNextCommand (store s)
                        (r0\<lparr>EnrollID := normalizer s (Enrollment results)\<rparr>)
                        (Status results = ''NotNow'')
                        (snd (StoreCommandReport (store s)
                                (r0\<lparr>EnrollID := normalizer s (Enrollment results)\<rparr>) results
                                (world run0)))) of
              (cmd, Some e) \<Rightarrow> (None, Some (WrapError ''retrieving next command: '' e))
            | (cmd, None) \<Rightarrow> (cmd, None))"
proof -
  define r where "r = r0\<lparr>EnrollID := normalizer s (Enrollment results)\<rparr>"
  obtain run1 where su:
    "setupRequest Validate s r0 (Enrollment results) run0 = ((r, None), run1)"
    "world run1 = world run0"
    "storage_calls (events run1) = storage_calls (events run0)"
    using setupRequest_result [of Validate s r0 "Enrollment results" run0] assms(1)
    unfolding r_def by auto
  from assms(2) have stored: "fst (StoreCommandReport (store s) r results (world run0)) = None"
    by (simp add: r_def)
  obtain cmd err where next_cmd:
    "fst (RetrieveNextCommand (store s) r (Status results = ''NotNow'')
            (snd (StoreCommandReport (store s) r results (world run0)))) = (cmd, err)"
    by (cases "fst (RetrieveNextCommand (store s) r (Status results = ''NotNow'')
            (snd (StoreCommandReport (store s) r results (world run0))))")
  have "storage_calls (events (snd (CommandAndReportResults Validate s r0 results run0)))
         = storage_calls (events run0)
           @ [Call_StoreCommandReport r results,
              Call_RetrieveNextCommand r (Status results = ''NotNow'')]
       \<and> world (snd (CommandAndReportResults Validate s r0 results run0))
         = snd (RetrieveNextCommand (store s) r (Status results = ''NotNow'')
                  (snd (StoreCommandReport (store s) r results (world run0))))
       \<and> fst (CommandAndReportResults Validate s r0 results run0)
         = (case (cmd, err) of
              (cmd, Some e) \<Rightarrow> (None, Some (WrapError ''retrieving next command: '' e))
            | (cmd, None) \<Rightarrow> (cmd, None))"
    using su stored next_cmd
    by (cases cmd; cases err)
      (simp_all add: CommandAndReportResults_def call_result emit_def storage_calls_def Let_def
        Errorf_w_def)
  then show ?thesis unfolding next_cmd [symmetric] r_def .
qed

theorem CommandAndReportResults_skipNotNow_witness:
  "example_Validate (normalizer example_service (Enrollment report_Acknowledged)) = None
   \<and> fst (StoreCommandReport (store example_service)
            (fresh_request\<lparr>EnrollID := normalizer example_service (Enrollment report_Acknowledged)\<rparr>)
            report_Acknowledged (world start)) = None
   \<and> storage_calls (events (snd (CommandAndReportResults example_Validate example_service
                                    fresh_request report_Acknowledged start)))
       = [Call_StoreCommandReport request_AAA report_Acknowledged,
          Call_RetrieveNextCommand request_AAA False]
   \<and> world (snd (CommandAndReportResults example_Validate example_service
                    fresh_request report_Acknowledged start))
       = [''StoreCommandReport'', ''RetrieveNextCommand'']
   \<and> fst (CommandAndReportResults example_Validate example_service
             fresh_request report_Acknowledged start) = (None, None)
   \<and> example_Validate (normalizer example_service (Enrollment report_NotNow)) = None
   \<and> fst (StoreCommandReport (store example_service)
            (fresh_request\<lparr>EnrollID := normalizer example_service (Enrollment report_NotNow)\<rparr>)
            report_NotNow (world start)) = None
   \<and> world (snd (CommandAndReportResults example_Validate example_service
                    fresh_request report_NotNow start))
       = [''StoreCommandReport'', ''RetrieveNextCommand skipNotNow'']"
proof -
  have n: "normalizer example_service (Enrollment report_Acknowledged)
             = Some \<lparr>Type = Device, ID = ''AAA'', ParentID = ''''\<rparr>"
          "normalizer example_service (Enrollment report_NotNow)
             = Some \<lparr>Type = Device, ID = ''AAA'', ParentID = ''''\<rparr>"
    by (simp_all add: example_service_fields report_Acknowledged_def report_NotNow_def
        normalize_device_AAA)
  have v: "example_Validate (normalizer example_service (Enrollment report_Acknowledged)) = None"
          "example_Validate (normalizer example_service (Enrollment report_NotNow)) = None"
    by (simp_all add: n Validate_AAA)
  have st: "fst (StoreCommandReport (store example_service)
            (fresh_request\<lparr>EnrollID := normalizer example_service (Enrollment report_Acknowledged)\<rparr>)
            report_Acknowledged (world start)) = None"
           "fst (StoreCommandReport (store example_service)
            (fresh_request\<lparr>EnrollID := normalizer example_service (Enrollment report_NotNow)\<rparr>)
            report_NotNow (world start)) = None"
    by (simp_all add: example_service_fields journal_store_def)
  have flag: "(Status report_Acknowledged = ''NotNow'') = False"
             "(Status report_NotNow = ''NotNow'') = True"
    by (simp_all add: report_Acknowledged_def report_NotNow_def)
  have empty: "storage_calls (events start) = []" "world start = []"
    by (simp_all add: start_def storage_calls_def)
  have e: "Enrollment report_Acknowledged = device_AAA" "Enrollment report_NotNow = device_AAA"
    by (simp_all add: report_Acknowledged_def report_NotNow_def)
  have ack: "storage_calls (events (snd (CommandAndReportResults example_Validate example_service
                                    fresh_request report_Acknowledged start)))
       = [Call_StoreCommandReport request_AAA report_Acknowledged,
          Call_RetrieveNextCommand request_AAA False]
     \<and> world (snd (CommandAndReportResults example_Validate example_service
                    fresh_request report_Acknowledged start))
       = [''StoreCommandReport'', ''RetrieveNextCommand'']
     \<and> fst (CommandAndReportResults example_Validate example_service
             fresh_request report_Acknowledged start) = (None, None)"
    using CommandAndReportResults_skipNotNow
         [where Validate = example_Validate and s = example_service
            and results = report_Acknowledged and ?r0.0 = fresh_request and ?run0.0 = start,
          OF v(1) st(1)]
    by (simp add: e normalize_device_AAA fresh_request_installed flag empty
        example_service_fields journal_store_def)
  have notnow: "world (snd (CommandAndReportResults example_Validate example_service
                    fresh_request report_NotNow start))
       = [''StoreCommandReport'', ''RetrieveNextCommand skipNotNow'']"
    using CommandAndReportResults_skipNotNow
         [where Validate = example_Validate and s = example_service
            and results = report_NotNow and ?r0.0 = fresh_request and ?run0.0 = start,
          OF v(2) st(2)]
    by (simp add: e normalize_device_AAA fresh_request_installed flag empty
        example_service_fields journal_store_def)
  from v st ack notnow show ?thesis by blast
qed

text \<open>
  Claim C1 as stated fails: for a report with status \<^verbatim>\<open>NotNow\<close> the flag passed to
  \<^verbatim>\<open>RetrieveNextCommand\<close> is true, as the backend's journal shows, and for the status
  \<^verbatim>\<open>Acknowledged\<close> it is false.
\<close>

theorem CommandAndReportResults_flag_counterexample:
  "Status report_NotNow = ''NotNow''
   \<and> CommandAndReportResults example_Validate example_service fresh_request report_NotNow start
       = ((None, None),
          \<lparr>world = [''StoreCommandReport'', ''RetrieveNextCommand skipNotNow''],
           events = [Info [LStr ''status'', LStr ''NotNow'', LStr ''command_uuid'', LStr ''U1''],
                     Call_StoreCommandReport request_AAA report_NotNow,
                     Call_RetrieveNextCommand request_AAA True,
                     Debug [LStr ''msg'', LStr ''no command retrieved'']]\<rparr>)
   \<and> Status report_Acknowledged \<noteq> ''NotNow''
   \<and> CommandAndReportResults example_Validate example_service fresh_request report_Acknowledged
         start
       = ((None, None),
          \<lparr>world = [''StoreCommandReport'', ''RetrieveNextCommand''],
           events = [Info [LStr ''status'', LStr ''Acknowledged'', LStr ''command_uuid'', LStr ''U1''],
                     Call_StoreCommandReport request_AAA report_Acknowledged,
                     Call_RetrieveNextCommand request_AAA False,
                     Debug [LStr ''msg'', LStr ''no command retrieved'']]\<rparr>)"
proof -
  have n1: "normalizer example_service (Enrollment report_NotNow)
             = Some \<lparr>Type = Device, ID = ''AAA'', ParentID = ''''\<rparr>"
    by (simp add: example_service_fields report_NotNow_def normalize_device_AAA)
  have n2: "normalizer example_service (Enrollment report_Acknowledged)
             = Some \<lparr>Type = Device, ID = ''AAA'', ParentID = ''''\<rparr>"
    by (simp add: example_service_fields report_Acknowledged_def normalize_device_AAA)
  have s1: "Status report_NotNow = ''NotNow''"
    by (simp add: report_NotNow_def)
  have s2: "Status report_Acknowledged \<noteq> ''NotNow''"
    by (simp add: report_Acknowledged_def)
  have c1: "CommandAndReportResults example_Validate example_service fresh_request report_NotNow start
       = ((None, None),
          \<lparr>world = [''StoreCommandReport'', ''RetrieveNextCommand skipNotNow''],
           events = [Info [LStr ''status'', LStr ''NotNow'', LStr ''command_uuid'', LStr ''U1''],
                     Call_StoreCommandReport request_AAA report_NotNow,
                     Call_RetrieveNextCommand request_AAA True,
                     Debug [LStr ''msg'', LStr ''no command retrieved'']]\<rparr>)"
    unfolding CommandAndReportResults_def setupRequest_fresh n1 Validate_AAA fresh_request_installed
    by (simp add: report_NotNow_def call_result emit_def example_service_fields journal_store_def
        start_def Let_def)
  have c2: "CommandAndReportResults example_Validate example_service fresh_request report_Acknowledged
         start
       = ((None, None),
          \<lparr>world = [''StoreCommandReport'', ''RetrieveNextCommand''],
           events = [Info [LStr ''status'', LStr ''Acknowledged'', LStr ''command_uuid'', LStr ''U1''],
                     Call_StoreCommandReport request_AAA report_Acknowledged,
                     Call_RetrieveNextCommand request_AAA False,
                     Debug [LStr ''msg'', LStr ''no command retrieved'']]\<rparr>)"
    unfolding CommandAndReportResults_def setupRequest_fresh n2 Validate_AAA fresh_request_installed
    by (simp add: report_Acknowledged_def call_result emit_def example_service_fields journal_store_def
        start_def Let_def)
  from s1 s2 c1 c2 show ?thesis by blast
qed

text \<open>
  Claim C2. For an \<^verbatim>\<open>Authenticate\<close> message that passes normalization the storage operations
  are \<^verbatim>\<open>StoreAuthenticate\<close>, then \<^verbatim>\<open>ClearQueue\<close>, then \<^verbatim>\<open>Disable\<close>, each on the world the
  one before left and with the normalized request; the first error is returned and ends the
  sequence. For a \<^verbatim>\<open>CheckOut\<close> message that passes normalization the one storage operation is
  \<^verbatim>\<open>Disable\<close>, whose error is the result.
\<close>

theorem Authenticate_CheckOut_storage_order:
  "(Validate (normalizer s (Enrollment message)) = None \<longrightarrow>
      (let r = r0\<lparr>EnrollID := normalizer s (Enrollment message)\<rparr>;
           (e1, w1) = StoreAuthenticate (store s) r message (world run0);
           (e2, w2) = ClearQueue (store s) r w1;
           (e3, w3) = Disable (store s) r w2;
           (err, run') = Authenticate Validate s r0 message run0
       in if e1 \<noteq> None
          then err = e1 \<and> world run' = w1
             \<and> storage_calls (events run')
                 = storage_calls (events run0) @ [Call_StoreAuthenticate r message]
          else if e2 \<noteq> None
          then err = e2 \<and> world run' = w2
             \<and> storage_calls (events run')
                 = storage_calls (events run0) @ [Call_StoreAuthenticate r message, Call_ClearQueue r]
          else err = e3 \<and> world run' = w3
             \<and> storage_calls (events run')
                 = storage_calls (events run0)
                   @ [Call_StoreAuthenticate r message, Call_ClearQueue r, Call_Disable r]))
   \<and> (Validate (normalizer s (Enrollment checkout)) = None \<longrightarrow>
      (let r = r0\<lparr>EnrollID := normalizer s (Enrollment checkout)\<rparr>;
           (e, w) = Disable (store s) r (world run0);
           (err, run') = CheckOut Validate s r0 checkout run0
       in err = e \<and> world run' = w
        \<and> storage_calls (events run') = storage_calls (events run0) @ [Call_Disable r]))"
proof (intro conjI impI)
  assume v: "Validate (normalizer s (Enrollment message)) = None"
  define r where "r = r0\<lparr>EnrollID := normalizer s (Enrollment message)\<rparr>"
  obtain run1 where su:
    "setupRequest Validate s r0 (Enrollment message) run0 = ((r, None), run1)"
    "world run1 = world run0"
    "storage_calls (events run1) = storage_calls (events run0)"
    using setupRequest_result [of Validate s r0 "Enrollment message" run0] v
    unfolding r_def by auto
  obtain e1 w1 where sa: "StoreAuthenticate (store s) r message (world run0) = (e1, w1)"
    by (cases "StoreAuthenticate (store s) r message (world run0)")
  obtain e2 w2 where cq: "ClearQueue (store s) r w1 = (e2, w2)"
    by (cases "ClearQueue (store s) r w1")
  obtain e3 w3 where di: "Disable (store s) r w2 = (e3, w3)"
    by (cases "Disable (store s) r w2")
  have "if e1 \<noteq> None
        then fst (Authenticate Validate s r0 message run0) = e1
           \<and> world (snd (Authenticate Validate s r0 message run0)) = w1
           \<and> storage_calls (events (snd (Authenticate Validate s r0 message run0)))
               = storage_calls (events run0) @ [Call_StoreAuthenticate r message]
        else if e2 \<noteq> None
        then fst (Authenticate Validate s r0 message run0) = e2
           \<and> world (snd (Authenticate Validate s r0 message run0)) = w2
           \<and> storage_calls (events (snd (Authenticate Validate s r0 message run0)))
               = storage_calls (events run0) @ [Call_StoreAuthenticate r message, Call_ClearQueue r]
        else fst (Authenticate Validate s r0 message run0) = e3
           \<and> world (snd (Authenticate Validate s r0 message run0)) = w3
           \<and> storage_calls (events (snd (Authenticate Validate s r0 message run0)))
               = storage_calls (events run0)
                 @ [Call_StoreAuthenticate r message, Call_ClearQueue r, Call_Disable r]"
    using su sa cq di
    by (cases e1; cases e2)
      (simp_all add: Authenticate_def call_result emit_def storage_calls_def Let_def)
  then show "let r = r0\<lparr>EnrollID := normalizer s (Enrollment message)\<rparr>;
           (e1, w1) = StoreAuthenticate (store s) r message (world run0);
           (e2, w2) = ClearQueue (store s) r w1;
           (e3, w3) = Disable (store s) r w2;
           (err, run') = Authenticate Validate s r0 message run0
       in if e1 \<noteq> None
          then err = e1 \<and> world run' = w1
             \<and> storage_calls (events run')
                 = storage_calls (events run0) @ [Call_StoreAuthenticate r message]
          else if e2 \<noteq> None
          then err = e2 \<and> world run' = w2
             \<and> storage_calls (events run')
                 = storage_calls (events run0) @ [Call_StoreAuthenticate r message, Call_ClearQueue r]
          else err = e3 \<and> world run' = w3
             \<and> storage_calls (events run')
                 = storage_calls (events run0)
                   @ [Call_StoreAuthenticate r message, Call_ClearQueue r, Call_Disable r]"
    using sa cq di unfolding r_def [symmetric] Let_def
    by (simp add: case_prod_beta)
next
  assume v: "Validate (normalizer s (Enrollment checkout)) = None"
  define r where "r = r0\<lparr>EnrollID := normalizer s (Enrollment checkout)\<rparr>"
  obtain run1 where su:
    "setupRequest Validate s r0 (Enrollment checkout) run0 = ((r, None), run1)"
    "world run1 = world run0"
    "storage_calls (events run1) = storage_calls (events run0)"
    using setupRequest_result [of Validate s r0 "Enrollment checkout" run0] v
    unfolding r_def by auto
  have "fst (CheckOut Validate s r0 checkout run0) = fst (Disable (store s) r (world run0))
      \<and> world (snd (CheckOut Validate s r0 checkout run0)) = snd (Disable (store s) r (world run0))
      \<and> storage_calls (events (snd (CheckOut Validate s r0 checkout run0)))
          = storage_calls (events run0) @ [Call_Disable r]"
    using su by (simp add: CheckOut_def call_result emit_def storage_calls_def)
  then show "let r = r0\<lparr>EnrollID := normalizer s (Enrollment checkout)\<rparr>;
           (e, w) = Disable (store s) r (world run0);
           (err, run') = CheckOut Validate s r0 checkout run0
       in err = e \<and> world run' = w
        \<and> storage_calls (events run') = storage_calls (events run0) @ [Call_Disable r]"
    unfolding r_def [symmetric] Let_def by (simp add: case_prod_beta)
qed

lemma example_enrollments:
  "Enrollment authenticate_AAA = device_AAA"
  "Enrollment checkout_AAA = device_AAA"
  "Enrollment report_NotNow = device_AAA"
  "Enrollment report_Acknowledged = device_AAA"
  by (simp_all add: authenticate_AAA_def checkout_AAA_def report_NotNow_def report_Acknowledged_def)

lemma failing_service_fields:
  "normalizer failing_service = normalize_enrollment example_Resolved"
  "store failing_service = failing_store"
  by (simp_all add: failing_service_def New_def)

theorem Authenticate_CheckOut_storage_order_witness:
  "example_Validate (normalizer example_service (Enrollment authenticate_AAA)) = None
   \<and> Authenticate example_Validate example_service fresh_request authenticate_AAA start
       = (None,
          \<lparr>world = [''StoreAuthenticate'', ''ClearQueue'', ''Disable''],
           events = [Info [LStr ''msg'', LStr ''Authenticate'', LStr ''serial_number'', LStr ''C02XYZ''],
                     Call_StoreAuthenticate request_AAA authenticate_AAA,
                     Call_ClearQueue request_AAA,
                     Call_Disable request_AAA]\<rparr>)
   \<and> example_Validate (normalizer failing_service (Enrollment authenticate_AAA)) = None
   \<and> fst (Authenticate example_Validate failing_service fresh_request authenticate_AAA start)
       = Some (ErrorString ''clear queue'')
   \<and> storage_calls (events (snd (Authenticate example_Validate failing_service fresh_request
                                    authenticate_AAA start)))
       = [Call_StoreAuthenticate request_AAA authenticate_AAA, Call_ClearQueue request_AAA]
   \<and> example_Validate (normalizer example_service (Enrollment checkout_AAA)) = None
   \<and> fst (CheckOut example_Validate example_service fresh_request checkout_AAA start) = None
   \<and> world (snd (CheckOut example_Validate example_service fresh_request checkout_AAA start))
       = [''Disable'']
   \<and> storage_calls (events (snd (CheckOut example_Validate example_service fresh_request
                                    checkout_AAA start)))
       = [Call_Disable request_AAA]"
proof -
  have n: "normalizer example_service (Enrollment authenticate_AAA)
             = Some \<lparr>Type = Device, ID = ''AAA'', ParentID = ''''\<rparr>"
          "normalizer failing_service (Enrollment authenticate_AAA)
             = Some \<lparr>Type = Device, ID = ''AAA'', ParentID = ''''\<rparr>"
          "normalizer example_service (Enrollment checkout_AAA)
             = Some \<lparr>Type = Device, ID = ''AAA'', ParentID = ''''\<rparr>"
    by (simp_all add: example_service_fields failing_service_fields authenticate_AAA_def
        checkout_AAA_def normalize_device_AAA)
  have v: "example_Validate (normalizer example_service (Enrollment authenticate_AAA)) = None"
          "example_Validate (normalizer failing_service (Enrollment authenticate_AAA)) = None"
          "example_Validate (normalizer example_service (Enrollment checkout_AAA)) = None"
    by (simp_all add: n Validate_AAA)
  have full: "Authenticate example_Validate example_service fresh_request authenticate_AAA start
       = (None,
          \<lparr>world = [''StoreAuthenticate'', ''ClearQueue'', ''Disable''],
           events = [Info [LStr ''msg'', LStr ''Authenticate'', LStr ''serial_number'', LStr ''C02XYZ''],
                     Call_StoreAuthenticate request_AAA authenticate_AAA,
                     Call_ClearQueue request_AAA,
                     Call_Disable request_AAA]\<rparr>)"
    unfolding Authenticate_def setupRequest_fresh n Validate_AAA fresh_request_installed
    by (simp add: authenticate_AAA_def call_result emit_def example_service_fields journal_store_def
        start_def Let_def)
  have empty: "storage_calls (events start) = []" "world start = []"
    by (simp_all add: start_def storage_calls_def)
  have a: "fst (Authenticate example_Validate failing_service fresh_request authenticate_AAA start)
             = Some (ErrorString ''clear queue'')
         \<and> storage_calls (events (snd (Authenticate example_Validate failing_service fresh_request
                                    authenticate_AAA start)))
             = [Call_StoreAuthenticate request_AAA authenticate_AAA, Call_ClearQueue request_AAA]"
    using Authenticate_CheckOut_storage_order
            [of example_Validate failing_service authenticate_AAA fresh_request start checkout_AAA]
          v(2) empty
    by (simp add: example_enrollments normalize_device_AAA fresh_request_installed
        failing_service_fields failing_store_def journal_store_def Let_def case_prod_beta)
  have c: "fst (CheckOut example_Validate example_service fresh_request checkout_AAA start) = None
         \<and> world (snd (CheckOut example_Validate example_service fresh_request checkout_AAA start))
             = [''Disable'']
         \<and> storage_calls (events (snd (CheckOut example_Validate example_service fresh_request
                                    checkout_AAA start)))
             = [Call_Disable request_AAA]"
    using Authenticate_CheckOut_storage_order
            [of example_Validate example_service authenticate_AAA fresh_request start checkout_AAA]
          v(3) empty
    by (simp add: example_enrollments normalize_device_AAA fresh_request_installed
        example_service_fields journal_store_def Let_def case_prod_beta)
  from v full a c show ?thesis by blast
qed

text \<open>
  Claim C3. For an enrollment block that resolves, the normalizer returns an \<^verbatim>\<open>EnrollID\<close>
  with the resolved type; on a device channel its id is the device-channel id and its parent id
  is empty; on a user channel its id is the device-channel id, a colon and the user-channel id,
  and its parent id is the device-channel id. The result depends on nothing but the resolved
  block: two blocks that resolve alike get equal ids.
\<close>

theorem normalize_enrollment_ids:
  "(Resolved e = Some r \<longrightarrow>
      (\<exists>eid. normalize_enrollment Resolved e = Some eid
           \<and> Type eid = Resolved_Type r
           \<and> (if IsUserChannel r
              then ID eid = DeviceChannelID r @ '':'' @ UserChannelID r
                 \<and> ParentID eid = DeviceChannelID r
              else ID eid = DeviceChannelID r \<and> ParentID eid = '''')))
   \<and> (Resolved e = Resolved e' \<longrightarrow> normalize_enrollment Resolved e = normalize_enrollment Resolved e')"
proof (intro conjI impI)
  assume "Resolved e = Some r"
  then show "\<exists>eid. normalize_enrollment Resolved e = Some eid
           \<and> Type eid = Resolved_Type r
           \<and> (if IsUserChannel r
              then ID eid = DeviceChannelID r @ '':'' @ UserChannelID r
                 \<and> ParentID eid = DeviceChannelID r
              else ID eid = DeviceChannelID r \<and> ParentID eid = '''')"
    by (cases "IsUserChannel r") (simp_all add: normalize_enrollment_def)
next
  assume "Resolved e = Resolved e'"
  then show "normalize_enrollment Resolved e = normalize_enrollment Resolved e'"
    by (simp add: normalize_enrollment_def)
qed

theorem normalize_enrollment_ids_witness:
  "example_Resolved device_AAA
     = Some \<lparr>Resolved_Type = Device, DeviceChannelID = ''AAA'', UserChannelID = '''',
             IsUserChannel = False\<rparr>
   \<and> normalize_enrollment example_Resolved device_AAA
       = Some \<lparr>Type = Device, ID = ''AAA'', ParentID = ''''\<rparr>
   \<and> example_Resolved user_AAA_BBB
     = Some \<lparr>Resolved_Type = User, DeviceChannelID = ''AAA'', UserChannelID = ''BBB'',
             IsUserChannel = True\<rparr>
   \<and> normalize_enrollment example_Resolved user_AAA_BBB
       = Some \<lparr>Type = User, ID = ''AAA:BBB'', ParentID = ''AAA''\<rparr>
   \<and> example_Resolved device_AAA = example_Resolved (device_AAA\<lparr>UserShortName := ''alice''\<rparr>)
   \<and> normalize_enrollment example_Resolved device_AAA
       = normalize_enrollment example_Resolved (device_AAA\<lparr>UserShortName := ''alice''\<rparr>)"
proof -
  have r1: "example_Resolved device_AAA
     = Some \<lparr>Resolved_Type = Device, DeviceChannelID = ''AAA'', UserChannelID = '''',
             IsUserChannel = False\<rparr>"
    by (simp add: example_Resolved_def device_AAA_def)
  have r2: "example_Resolved user_AAA_BBB
     = Some \<lparr>Resolved_Type = User, DeviceChannelID = ''AAA'', UserChannelID = ''BBB'',
             IsUserChannel = True\<rparr>"
    by (simp add: example_Resolved_def user_AAA_BBB_def)
  have r3: "example_Resolved device_AAA = example_Resolved (device_AAA\<lparr>UserShortName := ''alice''\<rparr>)"
    by (simp add: example_Resolved_def device_AAA_def)
  have d: "normalize_enrollment example_Resolved device_AAA
       = Some \<lparr>Type = Device, ID = ''AAA'', ParentID = ''''\<rparr>"
    using normalize_enrollment_ids
            [of example_Resolved device_AAA
                "\<lparr>Resolved_Type = Device, DeviceChannelID = ''AAA'', UserChannelID = '''',
                  IsUserChannel = False\<rparr>" device_AAA] r1
    by (simp add: normalize_device_AAA)
  have u: "normalize_enrollment example_Resolved user_AAA_BBB
       = Some \<lparr>Type = User, ID = ''AAA:BBB'', ParentID = ''AAA''\<rparr>"
    using normalize_enrollment_ids
            [of example_Resolved user_AAA_BBB
                "\<lparr>Resolved_Type = User, DeviceChannelID = ''AAA'', UserChannelID = ''BBB'',
                  IsUserChannel = True\<rparr>" user_AAA_BBB] r2
    by (simp add: normalize_user_AAA_BBB)
  have same: "normalize_enrollment example_Resolved device_AAA
       = normalize_enrollment example_Resolved (device_AAA\<lparr>UserShortName := ''alice''\<rparr>)"
    using normalize_enrollment_ids
            [of example_Resolved device_AAA
                "\<lparr>Resolved_Type = Device, DeviceChannelID = ''AAA'', UserChannelID = '''',
                  IsUserChannel = False\<rparr>"
                "device_AAA\<lparr>UserShortName := ''alice''\<rparr>"] r3
    by blast
  from r1 r2 r3 d u same show ?thesis by blast
qed

lemma setupRequest_events:
  "\<exists>new. events (snd (setupRequest Validate s r e run0)) = events run0 @ new
        \<and> list_all (\<lambda>ev. call_request ev = None) new"
  by (simp add: setupRequest_def emit_def)

lemma setupRequest_eq:
  "setupRequest Validate s r e run0
     = ((r\<lparr>EnrollID := normalizer s e\<rparr>, Validate (normalizer s e)),
        snd (setupRequest Validate s r e run0))"
  by (simp add: setupRequest_def)

lemma setupRequest_frame:
  "world (snd (setupRequest Validate s r e run0)) = world run0"
  "storage_calls (events (snd (setupRequest Validate s r e run0))) = storage_calls (events run0)"
  "handler_calls (events (snd (setupRequest Validate s r e run0))) = handler_calls (events run0)"
  by (simp_all add: setupRequest_def emit_def storage_calls_def handler_calls_def)

lemma calls_carry_after_setupRequest:
  assumes "\<And>new. events (snd (setupRequest Validate s r e run0)) = events run0 @ new \<Longrightarrow>
             \<exists>more. evs = events run0 @ new @ more
                  \<and> list_all (\<lambda>ev. call_request ev = None \<or> call_request ev = Some r') more"
  shows "calls_carry r' (events run0) evs"
proof -
  obtain new where new: "events (snd (setupRequest Validate s r e run0)) = events run0 @ new"
      "list_all (\<lambda>ev. call_request ev = None) new"
    using setupRequest_events by blast
  from assms [OF new(1)] obtain more where more: "evs = events run0 @ new @ more"
      "list_all (\<lambda>ev. call_request ev = None \<or> call_request ev = Some r') more"
    by blast
  from new(2) more(2)
  have "list_all (\<lambda>ev. call_request ev = None \<or> call_request ev = Some r') (new @ more)"
    by (auto simp: list_all_iff)
  with more(1) show ?thesis by (simp add: calls_carry_def)
qed

lemma Authenticate_carries:
  "calls_carry (r\<lparr>EnrollID := normalizer s (Enrollment m)\<rparr>) (events run0)
     (events (snd (Authenticate Validate s r m run0)))"
  unfolding Authenticate_def
  by (rule calls_carry_after_setupRequest [of Validate s r "Enrollment m"], subst setupRequest_eq)
    (simp add: call_result emit_def Let_def split: option.splits)

lemma TokenUpdate_carries:
  "calls_carry (r\<lparr>EnrollID := normalizer s (Enrollment m)\<rparr>) (events run0)
     (events (snd (TokenUpdate Validate s r m run0)))"
  unfolding TokenUpdate_def
  by (rule calls_carry_after_setupRequest [of Validate s r "Enrollment m"], subst setupRequest_eq)
    (simp add: call_result emit_def Let_def split: option.splits)

lemma CheckOut_carries:
  "calls_carry (r\<lparr>EnrollID := normalizer s (Enrollment m)\<rparr>) (events run0)
     (events (snd (CheckOut Validate s r m run0)))"
  unfolding CheckOut_def
  by (rule calls_carry_after_setupRequest [of Validate s r "Enrollment m"], subst setupRequest_eq)
    (simp add: call_result emit_def Let_def split: option.splits)

lemma UserAuthenticate_carries:
  "calls_carry (r\<lparr>EnrollID := normalizer s (Enrollment m)\<rparr>) (events run0)
     (events (snd (UserAuthenticate Validate s r m run0)))"
  unfolding UserAuthenticate_def
  by (rule calls_carry_after_setupRequest [of Validate s r "Enrollment m"], subst setupRequest_eq)
    (simp add: call_result emit_def Let_def split: option.splits)

lemma SetBootstrapToken_carries:
  "calls_carry (r\<lparr>EnrollID := normalizer s (Enrollment m)\<rparr>) (events run0)
     (events (snd (SetBootstrapToken Validate s r m run0)))"
  unfolding SetBootstrapToken_def
  by (rule calls_carry_after_setupRequest [of Validate s r "Enrollment m"], subst setupRequest_eq)
    (simp add: call_result emit_def Let_def split: option.splits)

lemma GetBootstrapToken_carries:
  "calls_carry (r\<lparr>EnrollID := normalizer s (Enrollment m)\<rparr>) (events run0)
     (events (snd (GetBootstrapToken Validate s r m run0)))"
  unfolding GetBootstrapToken_def
  by (rule calls_carry_after_setupRequest [of Validate s r "Enrollment m"], subst setupRequest_eq)
    (simp add: call_result emit_def Let_def split: option.splits)

lemma DeclarativeManagement_carries:
  "calls_carry (r\<lparr>EnrollID := normalizer s (Enrollment m)\<rparr>) (events run0)
     (events (snd (DeclarativeManagement Validate s r m run0)))"
  unfolding DeclarativeManagement_def
  by (rule calls_carry_after_setupRequest [of Validate s r "Enrollment m"], subst setupRequest_eq)
    (simp add: call_result emit_def Let_def split: option.splits)

lemma GetToken_carries:
  "calls_carry (r\<lparr>EnrollID := normalizer s (Enrollment m)\<rparr>) (events run0)
     (events (snd (GetToken Validate s r m run0)))"
  unfolding GetToken_def
  by (rule calls_carry_after_setupRequest [of Validate s r "Enrollment m"], subst setupRequest_eq)
    (simp add: call_result emit_def Let_def split: option.splits)

lemma CommandAndReportResults_carries:
  "calls_carry (r\<lparr>EnrollID := normalizer s (Enrollment m)\<rparr>) (events run0)
     (events (snd (CommandAndReportResults Validate s r m run0)))"
  unfolding CommandAndReportResults_def
  by (rule calls_carry_after_setupRequest [of Validate s r "Enrollment m"], subst setupRequest_eq)
    (simp add: call_result emit_def Let_def split: option.splits prod.splits)

lemma Authenticate_refused:
  "Validate (normalizer s (Enrollment m)) = Some err \<Longrightarrow>
   Authenticate Validate s r m run0 = (Some err, snd (setupRequest Validate s r (Enrollment m) run0))"
  unfolding Authenticate_def by (subst setupRequest_eq) simp

lemma TokenUpdate_refused:
  "Validate (normalizer s (Enrollment m)) = Some err \<Longrightarrow>
   TokenUpdate Validate s r m run0 = (Some err, snd (setupRequest Validate s r (Enrollment m) run0))"
  unfolding TokenUpdate_def by (subst setupRequest_eq) simp

lemma CheckOut_refused:
  "Validate (normalizer s (Enrollment m)) = Some err \<Longrightarrow>
   CheckOut Validate s r m run0 = (Some err, snd (setupRequest Validate s r (Enrollment m) run0))"
  unfolding CheckOut_def by (subst setupRequest_eq) simp

lemma UserAuthenticate_refused:
  "Validate (normalizer s (Enrollment m)) = Some err \<Longrightarrow>
   UserAuthenticate Validate s r m run0
     = (('''', Some err), snd (setupRequest Validate s r (Enrollment m) run0))"
  unfolding UserAuthenticate_def by (subst setupRequest_eq) simp

lemma SetBootstrapToken_refused:
  "Validate (normalizer s (Enrollment m)) = Some err \<Longrightarrow>
   SetBootstrapToken Validate s r m run0
     = (Some err, snd (setupRequest Validate s r (Enrollment m) run0))"
  unfolding SetBootstrapToken_def by (subst setupRequest_eq) simp

lemma GetBootstrapToken_refused:
  "Validate (normalizer s (Enrollment m)) = Some err \<Longrightarrow>
   GetBootstrapToken Validate s r m run0
     = ((None, Some err), snd (setupRequest Validate s r (Enrollment m) run0))"
  unfolding GetBootstrapToken_def by (subst setupRequest_eq) simp

lemma DeclarativeManagement_refused:
  "Validate (normalizer s (Enrollment m)) = Some err \<Longrightarrow>
   DeclarativeManagement Validate s r m run0
     = (('''', Some err), snd (setupRequest Validate s r (Enrollment m) run0))"
  unfolding DeclarativeManagement_def by (subst setupRequest_eq) simp

lemma GetToken_refused:
  "Validate (normalizer s (Enrollment m)) = Some err \<Longrightarrow>
   GetToken Validate s r m run0
     = ((None, Some err), snd (setupRequest Validate s r (Enrollment m) run0))"
  unfolding GetToken_def by (subst setupRequest_eq) simp

lemma CommandAndReportResults_refused:
  "Validate (normalizer s (Enrollment m)) = Some err \<Longrightarrow>
   CommandAndReportResults Validate s r m run0
     = ((None, Some err), snd (setupRequest Validate s r (Enrollment m) run0))"
  unfolding CommandAndReportResults_def by (subst setupRequest_eq) simp

lemma TokenUpdate_accepted:
  "Validate (normalizer s (Enrollment m)) = None \<Longrightarrow>
   fst (TokenUpdate Validate s r m run0)
     = fst (StoreTokenUpdate (store s) (r\<lparr>EnrollID := normalizer s (Enrollment m)\<rparr>) m (world run0))
   \<and> world (snd (TokenUpdate Validate s r m run0))
     = snd (StoreTokenUpdate (store s) (r\<lparr>EnrollID := normalizer s (Enrollment m)\<rparr>) m (world run0))"
  unfolding TokenUpdate_def
  by (subst (1 2) setupRequest_eq) (simp add: call_result emit_def setupRequest_frame)

lemma CheckOut_accepted:
  "Validate (normalizer s (Enrollment m)) = None \<Longrightarrow>
   fst (CheckOut Validate s r m run0)
     = fst (Disable (store s) (r\<lparr>EnrollID := normalizer s (Enrollment m)\<rparr>) (world run0))
   \<and> world (snd (CheckOut Validate s r m run0))
     = snd (Disable (store s) (r\<lparr>EnrollID := normalizer s (Enrollment m)\<rparr>) (world run0))"
  unfolding CheckOut_def
  by (subst (1 2) setupRequest_eq) (simp add: call_result emit_def setupRequest_frame)

lemma SetBootstrapToken_accepted:
  "Validate (normalizer s (Enrollment m)) = None \<Longrightarrow>
   fst (SetBootstrapToken Validate s r m run0)
     = fst (StoreBootstrapToken (store s) (r\<lparr>EnrollID := normalizer s (Enrollment m)\<rparr>) m
              (world run0))
   \<and> world (snd (SetBootstrapToken Validate s r m run0))
     = snd (StoreBootstrapToken (store s) (r\<lparr>EnrollID := normalizer s (Enrollment m)\<rparr>) m
              (world run0))"
  unfolding SetBootstrapToken_def
  by (subst (1 2) setupRequest_eq) (simp add: call_result emit_def setupRequest_frame)

lemma GetBootstrapToken_accepted:
  "Validate (normalizer s (Enrollment m)) = None \<Longrightarrow>
   fst (GetBootstrapToken Validate s r m run0)
     = fst (RetrieveBootstrapToken (store s) (r\<lparr>EnrollID := normalizer s (Enrollment m)\<rparr>) m
              (world run0))
   \<and> world (snd (GetBootstrapToken Validate s r m run0))
     = snd (RetrieveBootstrapToken (store s) (r\<lparr>EnrollID := normalizer s (Enrollment m)\<rparr>) m
              (world run0))"
  unfolding GetBootstrapToken_def
  by (subst (1 2) setupRequest_eq) (simp add: call_result emit_def setupRequest_frame)

lemma Authenticate_accepted:
  "Validate (normalizer s (Enrollment m)) = None \<Longrightarrow>
   (let r' = r\<lparr>EnrollID := normalizer s (Enrollment m)\<rparr>;
        sa = StoreAuthenticate (store s) r' m (world run0);
        cq = ClearQueue (store s) r' (snd sa);
        di = Disable (store s) r' (snd cq);
        res = Authenticate Validate s r m run0
    in fst res = (if fst sa \<noteq> None then fst sa else if fst cq \<noteq> None then fst cq else fst di)
     \<and> world (snd res)
         = (if fst sa \<noteq> None then snd sa else if fst cq \<noteq> None then snd cq else snd di))"
  unfolding Authenticate_def Let_def
  by (subst (1 2) setupRequest_eq)
    (auto simp add: call_result emit_def setupRequest_frame split: option.splits)

lemma UserAuthenticate_accepted:
  "Validate (normalizer s (Enrollment m)) = None \<Longrightarrow>
   (let r' = r\<lparr>EnrollID := normalizer s (Enrollment m)\<rparr>;
        res = UserAuthenticate Validate s r m run0
    in case ua s of
         None \<Rightarrow> fst res = ('''', Some (ErrorString ''no UserAuthenticate handler''))
                  \<and> world (snd res) = world run0
       | Some h \<Rightarrow> fst res = fst (h r' m (world run0)) \<and> world (snd res) = snd (h r' m (world run0)))"
  unfolding UserAuthenticate_def Let_def
  by (subst (1 2 3 4) setupRequest_eq)
    (simp add: call_result emit_def setupRequest_frame split: option.splits)

lemma DeclarativeManagement_accepted:
  "Validate (normalizer s (Enrollment m)) = None \<Longrightarrow>
   (let r' = r\<lparr>EnrollID := normalizer s (Enrollment m)\<rparr>;
        res = DeclarativeManagement Validate s r m run0
    in case dm s of
         None \<Rightarrow> fst res = ('''', Some (ErrorString ''no Declarative Management handler''))
                  \<and> world (snd res) = world run0
       | Some h \<Rightarrow> fst res = fst (h r' m (world run0)) \<and> world (snd res) = snd (h r' m (world run0)))"
  unfolding DeclarativeManagement_def Let_def
  by (subst (1 2 3 4) setupRequest_eq)
    (simp add: call_result emit_def setupRequest_frame split: option.splits)

lemma GetToken_accepted:
  "Validate (normalizer s (Enrollment m)) = None \<Longrightarrow>
   (let r' = r\<lparr>EnrollID := normalizer s (Enrollment m)\<rparr>;
        res = GetToken Validate s r m run0
    in case gt s of
         None \<Rightarrow> fst res = (None, Some (ErrorString ''no GetToken handler''))
                  \<and> world (snd res) = world run0
       | Some h \<Rightarrow> fst res = fst (h r' m (world run0)) \<and> world (snd res) = snd (h r' m (world run0)))"
  unfolding GetToken_def Let_def
  by (subst (1 2 3 4) setupRequest_eq)
    (simp add: call_result emit_def setupRequest_frame split: option.splits)

lemma CommandAndReportResults_accepted:
  "Validate (normalizer s (Enrollment m)) = None \<Longrightarrow>
   (let r' = r\<lparr>EnrollID := normalizer s (Enrollment m)\<rparr>;
        sr = StoreCommandReport (store s) r' m (world run0);
        rn = RetrieveNextCommand (store s) r' (Status m = ''NotNow'') (snd sr);
        res = CommandAndReportResults Validate s r m run0
    in fst res
         = (case fst sr of
              Some e \<Rightarrow> (None, Some (WrapError ''storing command report: '' e))
            | None \<Rightarrow>
                (case snd (fst rn) of
                   Some e \<Rightarrow> (None, Some (WrapError ''retrieving next command: '' e))
                 | None \<Rightarrow> (fst (fst rn), None)))
     \<and> world (snd res) = (case fst sr of Some e \<Rightarrow> snd sr | None \<Rightarrow> snd rn))"
  unfolding CommandAndReportResults_def Let_def
  by (subst (1 2) setupRequest_eq)
    (auto simp add: call_result emit_def setupRequest_frame Errorf_w_def
       split: option.splits prod.splits)

text \<open>
  Claim C4. Every check-in operation and \<^verbatim>\<open>CommandAndReportResults\<close> starts with
  \<^verbatim>\<open>setupRequest\<close>, which runs the normalizer on the message's enrollment and installs the
  result on the request. When the validation of the normalized id fails, each operation returns
  that error, with the world unchanged and no storage call and no handler call added to the
  events. When it passes, what each operation returns and the world it leaves are those of the
  storage operations or of the handler applied to the request with the normalized
  \<^verbatim>\<open>EnrollID\<close>, whatever the backend and the handlers are; and every storage or handler call
  among the events carries that request.
\<close>

theorem normalization_first_and_failure_short_circuits:
  "fst (setupRequest Validate s r e run0) = (r\<lparr>EnrollID := normalizer s e\<rparr>, Validate (normalizer s e))
   \<and> (\<forall>m. Enrollment m = e \<longrightarrow> calls_carry (r\<lparr>EnrollID := normalizer s e\<rparr>) (events run0)
               (events (snd (Authenticate Validate s r m run0))))
   \<and> (\<forall>m. Enrollment m = e \<longrightarrow> calls_carry (r\<lparr>EnrollID := normalizer s e\<rparr>) (events run0)
               (events (snd (TokenUpdate Validate s r m run0))))
   \<and> (\<forall>m. Enrollment m = e \<longrightarrow> calls_carry (r\<lparr>EnrollID := normalizer s e\<rparr>) (events run0)
               (events (snd (CheckOut Validate s r m run0))))
   \<and> (\<forall>m. Enrollment m = e \<longrightarrow> calls_carry (r\<lparr>EnrollID := normalizer s e\<rparr>) (events run0)
               (events (snd (UserAuthenticate Validate s r m run0))))
   \<and> (\<forall>m. Enrollment m = e \<longrightarrow> calls_carry (r\<lparr>EnrollID := normalizer s e\<rparr>) (events run0)
               (events (snd (SetBootstrapToken Validate s r m run0))))
   \<and> (\<forall>m. Enrollment m = e \<longrightarrow> calls_carry (r\<lparr>EnrollID := normalizer s e\<rparr>) (events run0)
               (events (snd (GetBootstrapToken Validate s r m run0))))
   \<and> (\<forall>m. Enrollment m = e \<longrightarrow> calls_carry (r\<lparr>EnrollID := normalizer s e\<rparr>) (events run0)
               (events (snd (DeclarativeManagement Validate s r m run0))))
   \<and> (\<forall>m. Enrollment m = e \<longrightarrow> calls_carry (r\<lparr>EnrollID := normalizer s e\<rparr>) (events run0)
               (events (snd (GetToken Validate s r m run0))))
   \<and> (\<forall>m. Enrollment m = e \<longrightarrow> calls_carry (r\<lparr>EnrollID := normalizer s e\<rparr>) (events run0)
               (events (snd (CommandAndReportResults Validate s r m run0))))
   \<and> (Validate (normalizer s e) = Some err \<longrightarrow>
          (let run1 = snd (setupRequest Validate s r e run0)
           in world run1 = world run0
            \<and> storage_calls (events run1) = storage_calls (events run0)
            \<and> handler_calls (events run1) = handler_calls (events run0)
            \<and> (\<forall>m. Enrollment m = e \<longrightarrow> Authenticate Validate s r m run0 = (Some err, run1))
            \<and> (\<forall>m. Enrollment m = e \<longrightarrow> TokenUpdate Validate s r m run0 = (Some err, run1))
            \<and> (\<forall>m. Enrollment m = e \<longrightarrow> CheckOut Validate s r m run0 = (Some err, run1))
            \<and> (\<forall>m. Enrollment m = e \<longrightarrow> UserAuthenticate Validate s r m run0 = (('''', Some err), run1))
            \<and> (\<forall>m. Enrollment m = e \<longrightarrow> SetBootstrapToken Validate s r m run0 = (Some err, run1))
            \<and> (\<forall>m. Enrollment m = e \<longrightarrow> GetBootstrapToken Validate s r m run0 = ((None, Some err), run1))
            \<and> (\<forall>m. Enrollment m = e \<longrightarrow> DeclarativeManagement Validate s r m run0 = (('''', Some err), run1))
            \<and> (\<forall>m. Enrollment m = e \<longrightarrow> GetToken Validate s r m run0 = ((None, Some err), run1))
            \<and> (\<forall>m. Enrollment m = e \<longrightarrow> CommandAndReportResults Validate s r m run0 = ((None, Some err), run1))))
   \<and> (Validate (normalizer s e) = None \<longrightarrow>
        (\<forall>m. Enrollment m = e \<longrightarrow>
            (let sa = StoreAuthenticate (store s) (r\<lparr>EnrollID := normalizer s e\<rparr>) m (world run0);
                 cq = ClearQueue (store s) (r\<lparr>EnrollID := normalizer s e\<rparr>) (snd sa);
                 di = Disable (store s) (r\<lparr>EnrollID := normalizer s e\<rparr>) (snd cq);
                 res = Authenticate Validate s r m run0
             in fst res = (if fst sa \<noteq> None then fst sa else if fst cq \<noteq> None then fst cq else fst di)
              \<and> world (snd res)
                  = (if fst sa \<noteq> None then snd sa else if fst cq \<noteq> None then snd cq else snd di)))
      \<and> (\<forall>m. Enrollment m = e \<longrightarrow>
            fst (TokenUpdate Validate s r m run0) = fst (StoreTokenUpdate (store s) (r\<lparr>EnrollID := normalizer s e\<rparr>) m (world run0))
          \<and> world (snd (TokenUpdate Validate s r m run0))
              = snd (StoreTokenUpdate (store s) (r\<lparr>EnrollID := normalizer s e\<rparr>) m (world run0)))
      \<and> (\<forall>m. Enrollment m = e \<longrightarrow>
            fst (CheckOut Validate s r m run0) = fst (Disable (store s) (r\<lparr>EnrollID := normalizer s e\<rparr>) (world run0))
          \<and> world (snd (CheckOut Validate s r m run0))
              = snd (Disable (store s) (r\<lparr>EnrollID := normalizer s e\<rparr>) (world run0)))
      \<and> (\<forall>m. Enrollment m = e \<longrightarrow>
            (let res = UserAuthenticate Validate s r m run0
             in case ua s of
                  None \<Rightarrow> fst res = ('''', Some (ErrorString ''no UserAuthenticate handler''))
                           \<and> world (snd res) = world run0
                | Some h \<Rightarrow> fst res = fst (h (r\<lparr>EnrollID := normalizer s e\<rparr>) m (world run0))
                           \<and> world (snd res) = snd (h (r\<lparr>EnrollID := normalizer s e\<rparr>) m (world run0))))
      \<and> (\<forall>m. Enrollment m = e \<longrightarrow>
            fst (SetBootstrapToken Validate s r m run0) = fst (StoreBootstrapToken (store s) (r\<lparr>EnrollID := normalizer s e\<rparr>) m (world run0))
          \<and> world (snd (SetBootstrapToken Validate s r m run0))
              = snd (StoreBootstrapToken (store s) (r\<lparr>EnrollID := normalizer s e\<rparr>) m (world run0)))
      \<and> (\<forall>m. Enrollment m = e \<longrightarrow>
            fst (GetBootstrapToken Validate s r m run0) = fst (RetrieveBootstrapToken (store s) (r\<lparr>EnrollID := normalizer s e\<rparr>) m (world run0))
          \<and> world (snd (GetBootstrapToken Validate s r m run0))
              = snd (RetrieveBootstrapToken (store s) (r\<lparr>EnrollID := normalizer s e\<rparr>) m (world run0)))
      \<and> (\<forall>m. Enrollment m = e \<longrightarrow>
            (let res = DeclarativeManagement Validate s r m run0
             in case dm s of
                  None \<Rightarrow> fst res = ('''', Some (ErrorString ''no Declarative Management handler''))
                           \<and> world (snd res) = world run0
                | Some h \<Rightarrow> fst res = fst (h (r\<lparr>EnrollID := normalizer s e\<rparr>) m (world run0))
                           \<and> world (snd res) = snd (h (r\<lparr>EnrollID := normalizer s e\<rparr>) m (world run0))))
      \<and> (\<forall>m. Enrollment m = e \<longrightarrow>
            (let res = GetToken Validate s r m run0
             in case gt s of
                  None \<Rightarrow> fst res = (None, Some (ErrorString ''no GetToken handler''))
                           \<and> world (snd res) = world run0
                | Some h \<Rightarrow> fst res = fst (h (r\<lparr>EnrollID := normalizer s e\<rparr>) m (world run0))
                           \<and> world (snd res) = snd (h (r\<lparr>EnrollID := normalizer s e\<rparr>) m (world run0))))
      \<and> (\<forall>m. Enrollment m = e \<longrightarrow>
            (let sr = StoreCommandReport (store s) (r\<lparr>EnrollID := normalizer s e\<rparr>) m (world run0);
                 rn = RetrieveNextCommand (store s) (r\<lparr>EnrollID := normalizer s e\<rparr>) (Status m = ''NotNow'') (snd sr);
                 res = CommandAndReportResults Validate s r m run0
             in fst res
                  = (case fst sr of
                       Some e \<Rightarrow> (None, Some (WrapError ''storing command report: '' e))
                     | None \<Rightarrow>
                         (case snd (fst rn) of
                            Some e \<Rightarrow> (None, Some (WrapError ''retrieving next command: '' e))
                          | None \<Rightarrow> (fst (fst rn), None)))
              \<and> world (snd res) = (case fst sr of Some e \<Rightarrow> snd sr | None \<Rightarrow> snd rn))))"
proof -
  have first: "fst (setupRequest Validate s r e run0)
                 = (r\<lparr>EnrollID := normalizer s e\<rparr>, Validate (normalizer s e))"
    by (simp add: setupRequest_def)
  have c1: "calls_carry (r\<lparr>EnrollID := normalizer s e\<rparr>) (events run0)
               (events (snd (Authenticate Validate s r m run0)))" if "Enrollment m = e" for m
    using that Authenticate_carries [where r = r and s = s and m = m and ?run0.0 = run0 and Validate = Validate] by simp
  have c2: "calls_carry (r\<lparr>EnrollID := normalizer s e\<rparr>) (events run0)
               (events (snd (TokenUpdate Validate s r m run0)))" if "Enrollment m = e" for m
    using that TokenUpdate_carries [where r = r and s = s and m = m and ?run0.0 = run0 and Validate = Validate] by simp
  have c3: "calls_carry (r\<lparr>EnrollID := normalizer s e\<rparr>) (events run0)
               (events (snd (CheckOut Validate s r m run0)))" if "Enrollment m = e" for m
    using that CheckOut_carries [where r = r and s = s and m = m and ?run0.0 = run0 and Validate = Validate] by simp
  have c4: "calls_carry (r\<lparr>EnrollID := normalizer s e\<rparr>) (events run0)
               (events (snd (UserAuthenticate Validate s r m run0)))" if "Enrollment m = e" for m
    using that UserAuthenticate_carries [where r = r and s = s and m = m and ?run0.0 = run0 and Validate = Validate] by simp
  have c5: "calls_carry (r\<lparr>EnrollID := normalizer s e\<rparr>) (events run0)
               (events (snd (SetBootstrapToken Validate s r m run0)))" if "Enrollment m = e" for m
    using that SetBootstrapToken_carries [where r = r and s = s and m = m and ?run0.0 = run0 and Validate = Validate] by simp
  have c6: "calls_carry (r\<lparr>EnrollID := normalizer s e\<rparr>) (events run0)
               (events (snd (GetBootstrapToken Validate s r m run0)))" if "Enrollment m = e" for m
    using that GetBootstrapToken_carries [where r = r and s = s and m = m and ?run0.0 = run0 and Validate = Validate] by simp
  have c7: "calls_carry (r\<lparr>EnrollID := normalizer s e\<rparr>) (events run0)
               (events (snd (DeclarativeManagement Validate s r m run0)))" if "Enrollment m = e" for m
    using that DeclarativeManagement_carries [where r = r and s = s and m = m and ?run0.0 = run0 and Validate = Validate] by simp
  have c8: "calls_carry (r\<lparr>EnrollID := normalizer s e\<rparr>) (events run0)
               (events (snd (GetToken Validate s r m run0)))" if "Enrollment m = e" for m
    using that GetToken_carries [where r = r and s = s and m = m and ?run0.0 = run0 and Validate = Validate] by simp
  have c9: "calls_carry (r\<lparr>EnrollID := normalizer s e\<rparr>) (events run0)
               (events (snd (CommandAndReportResults Validate s r m run0)))" if "Enrollment m = e" for m
    using that CommandAndReportResults_carries [where r = r and s = s and m = m and ?run0.0 = run0 and Validate = Validate] by simp
  have k1: "\<forall>m. Enrollment m = e \<longrightarrow> calls_carry (r\<lparr>EnrollID := normalizer s e\<rparr>) (events run0)
               (events (snd (Authenticate Validate s r m run0)))"
    using c1 by blast
  have k2: "\<forall>m. Enrollment m = e \<longrightarrow> calls_carry (r\<lparr>EnrollID := normalizer s e\<rparr>) (events run0)
               (events (snd (TokenUpdate Validate s r m run0)))"
    using c2 by blast
  have k3: "\<forall>m. Enrollment m = e \<longrightarrow> calls_carry (r\<lparr>EnrollID := normalizer s e\<rparr>) (events run0)
               (events (snd (CheckOut Validate s r m run0)))"
    using c3 by blast
  have k4: "\<forall>m. Enrollment m = e \<longrightarrow> calls_carry (r\<lparr>EnrollID := normalizer s e\<rparr>) (events run0)
               (events (snd (UserAuthenticate Validate s r m run0)))"
    using c4 by blast
  have k5: "\<forall>m. Enrollment m = e \<longrightarrow> calls_carry (r\<lparr>EnrollID := normalizer s e\<rparr>) (events run0)
               (events (snd (SetBootstrapToken Validate s r m run0)))"
    using c5 by blast
  have k6: "\<forall>m. Enrollment m = e \<longrightarrow> calls_carry (r\<lparr>EnrollID := normalizer s e\<rparr>) (events run0)
               (events (snd (GetBootstrapToken Validate s r m run0)))"
    using c6 by blast
  have k7: "\<forall>m. Enrollment m = e \<longrightarrow> calls_carry (r\<lparr>EnrollID := normalizer s e\<rparr>) (events run0)
               (events (snd (DeclarativeManagement Validate s r m run0)))"
    using c7 by blast
  have k8: "\<forall>m. Enrollment m = e \<longrightarrow> calls_carry (r\<lparr>EnrollID := normalizer s e\<rparr>) (events run0)
               (events (snd (GetToken Validate s r m run0)))"
    using c8 by blast
  have k9: "\<forall>m. Enrollment m = e \<longrightarrow> calls_carry (r\<lparr>EnrollID := normalizer s e\<rparr>) (events run0)
               (events (snd (CommandAndReportResults Validate s r m run0)))"
    using c9 by blast
  have r1: "Authenticate Validate s r m run0 = (Some err, snd (setupRequest Validate s r e run0))"
    if "Validate (normalizer s e) = Some err" "Enrollment m = e" for m
    using that Authenticate_refused [where r = r and s = s and m = m and ?run0.0 = run0 and Validate = Validate and err = err] by simp
  have r2: "TokenUpdate Validate s r m run0 = (Some err, snd (setupRequest Validate s r e run0))"
    if "Validate (normalizer s e) = Some err" "Enrollment m = e" for m
    using that TokenUpdate_refused [where r = r and s = s and m = m and ?run0.0 = run0 and Validate = Validate and err = err] by simp
  have r3: "CheckOut Validate s r m run0 = (Some err, snd (setupRequest Validate s r e run0))"
    if "Validate (normalizer s e) = Some err" "Enrollment m = e" for m
    using that CheckOut_refused [where r = r and s = s and m = m and ?run0.0 = run0 and Validate = Validate and err = err] by simp
  have r4: "UserAuthenticate Validate s r m run0 = (('''', Some err), snd (setupRequest Validate s r e run0))"
    if "Validate (normalizer s e) = Some err" "Enrollment m = e" for m
    using that UserAuthenticate_refused [where r = r and s = s and m = m and ?run0.0 = run0 and Validate = Validate and err = err] by simp
  have r5: "SetBootstrapToken Validate s r m run0 = (Some err, snd (setupRequest Validate s r e run0))"
    if "Validate (normalizer s e) = Some err" "Enrollment m = e" for m
    using that SetBootstrapToken_refused [where r = r and s = s and m = m and ?run0.0 = run0 and Validate = Validate and err = err] by simp
  have r6: "GetBootstrapToken Validate s r m run0 = ((None, Some err), snd (setupRequest Validate s r e run0))"
    if "Validate (normalizer s e) = Some err" "Enrollment m = e" for m
    using that GetBootstrapToken_refused [where r = r and s = s and m = m and ?run0.0 = run0 and Validate = Validate and err = err] by simp
  have r7: "DeclarativeManagement Validate s r m run0 = (('''', Some err), snd (setupRequest Validate s r e run0))"
    if "Validate (normalizer s e) = Some err" "Enrollment m = e" for m
    using that DeclarativeManagement_refused [where r = r and s = s and m = m and ?run0.0 = run0 and Validate = Validate and err = err] by simp
  have r8: "GetToken Validate s r m run0 = ((None, Some err), snd (setupRequest Validate s r e run0))"
    if "Validate (normalizer s e) = Some err" "Enrollment m = e" for m
    using that GetToken_refused [where r = r and s = s and m = m and ?run0.0 = run0 and Validate = Validate and err = err] by simp
  have r9: "CommandAndReportResults Validate s r m run0 = ((None, Some err), snd (setupRequest Validate s r e run0))"
    if "Validate (normalizer s e) = Some err" "Enrollment m = e" for m
    using that CommandAndReportResults_refused [where r = r and s = s and m = m and ?run0.0 = run0 and Validate = Validate and err = err] by simp
  have refused:
    "(Validate (normalizer s e) = Some err \<longrightarrow>
        (let run1 = snd (setupRequest Validate s r e run0)
         in world run1 = world run0
          \<and> storage_calls (events run1) = storage_calls (events run0)
          \<and> handler_calls (events run1) = handler_calls (events run0)
          \<and> (\<forall>m. Enrollment m = e \<longrightarrow> Authenticate Validate s r m run0 = (Some err, run1))
          \<and> (\<forall>m. Enrollment m = e \<longrightarrow> TokenUpdate Validate s r m run0 = (Some err, run1))
          \<and> (\<forall>m. Enrollment m = e \<longrightarrow> CheckOut Validate s r m run0 = (Some err, run1))
          \<and> (\<forall>m. Enrollment m = e \<longrightarrow> UserAuthenticate Validate s r m run0 = (('''', Some err), run1))
          \<and> (\<forall>m. Enrollment m = e \<longrightarrow> SetBootstrapToken Validate s r m run0 = (Some err, run1))
          \<and> (\<forall>m. Enrollment m = e \<longrightarrow> GetBootstrapToken Validate s r m run0 = ((None, Some err), run1))
          \<and> (\<forall>m. Enrollment m = e \<longrightarrow> DeclarativeManagement Validate s r m run0 = (('''', Some err), run1))
          \<and> (\<forall>m. Enrollment m = e \<longrightarrow> GetToken Validate s r m run0 = ((None, Some err), run1))
          \<and> (\<forall>m. Enrollment m = e \<longrightarrow> CommandAndReportResults Validate s r m run0 = ((None, Some err), run1))))"
    unfolding Let_def
    by (intro conjI allI impI;
        (rule setupRequest_frame
         | (rule r1 r2 r3 r4 r5 r6 r7 r8 r9, assumption, assumption)))
  have a1:
    "
    (let sa = StoreAuthenticate (store s) (r\<lparr>EnrollID := normalizer s e\<rparr>) m (world run0);
             cq = ClearQueue (store s) (r\<lparr>EnrollID := normalizer s e\<rparr>) (snd sa);
             di = Disable (store s) (r\<lparr>EnrollID := normalizer s e\<rparr>) (snd cq);
             res = Authenticate Validate s r m run0
         in fst res = (if fst sa \<noteq> None then fst sa else if fst cq \<noteq> None then fst cq else fst di)
          \<and> world (snd res)
              = (if fst sa \<noteq> None then snd sa else if fst cq \<noteq> None then snd cq else snd di))"
    if "Validate (normalizer s e) = None" "Enrollment m = e" for m
    using that Authenticate_accepted [where r = r and s = s and m = m and ?run0.0 = run0 and Validate = Validate] by (simp add: Let_def)
  have a2:
    "
    fst (TokenUpdate Validate s r m run0) = fst (StoreTokenUpdate (store s) (r\<lparr>EnrollID := normalizer s e\<rparr>) m (world run0))
      \<and> world (snd (TokenUpdate Validate s r m run0))
          = snd (StoreTokenUpdate (store s) (r\<lparr>EnrollID := normalizer s e\<rparr>) m (world run0))"
    if "Validate (normalizer s e) = None" "Enrollment m = e" for m
    using that TokenUpdate_accepted [where r = r and s = s and m = m and ?run0.0 = run0 and Validate = Validate] by (simp add: Let_def)
  have a3:
    "
    fst (CheckOut Validate s r m run0) = fst (Disable (store s) (r\<lparr>EnrollID := normalizer s e\<rparr>) (world run0))
      \<and> world (snd (CheckOut Validate s r m run0))
          = snd (Disable (store s) (r\<lparr>EnrollID := normalizer s e\<rparr>) (world run0))"
    if "Validate (normalizer s e) = None" "Enrollment m = e" for m
    using that CheckOut_accepted [where r = r and s = s and m = m and ?run0.0 = run0 and Validate = Validate] by (simp add: Let_def)
  have a4:
    "
    (let res = UserAuthenticate Validate s r m run0
         in case ua s of
              None \<Rightarrow> fst res = ('''', Some (ErrorString ''no UserAuthenticate handler''))
                       \<and> world (snd res) = world run0
            | Some h \<Rightarrow> fst res = fst (h (r\<lparr>EnrollID := normalizer s e\<rparr>) m (world run0))
                       \<and> world (snd res) = snd (h (r\<lparr>EnrollID := normalizer s e\<rparr>) m (world run0)))"
    if "Validate (normalizer s e) = None" "Enrollment m = e" for m
    using that UserAuthenticate_accepted [where r = r and s = s and m = m and ?run0.0 = run0 and Validate = Validate] by (simp add: Let_def)
  have a5:
    "
    fst (SetBootstrapToken Validate s r m run0) = fst (StoreBootstrapToken (store s) (r\<lparr>EnrollID := normalizer s e\<rparr>) m (world run0))
      \<and> world (snd (SetBootstrapToken Validate s r m run0))
          = snd (StoreBootstrapToken (store s) (r\<lparr>EnrollID := normalizer s e\<rparr>) m (world run0))"
    if "Validate (normalizer s e) = None" "Enrollment m = e" for m
    using that SetBootstrapToken_accepted [where r = r and s = s and m = m and ?run0.0 = run0 and Validate = Validate] by (simp add: Let_def)
  have a6:
    "
    fst (GetBootstrapToken Validate s r m run0) = fst (RetrieveBootstrapToken (store s) (r\<lparr>EnrollID := normalizer s e\<rparr>) m (world run0))
      \<and> world (snd (GetBootstrapToken Validate s r m run0))
          = snd (RetrieveBootstrapToken (store s) (r\<lparr>EnrollID := normalizer s e\<rparr>) m (world run0))"
    if "Validate (normalizer s e) = None" "Enrollment m = e" for m
    using that GetBootstrapToken_accepted [where r = r and s = s and m = m and ?run0.0 = run0 and Validate = Validate] by (simp add: Let_def)
  have a7:
    "
    (let res = DeclarativeManagement Validate s r m run0
         in case dm s of
              None \<Rightarrow> fst res = ('''', Some (ErrorString ''no Declarative Management handler''))
                       \<and> world (snd res) = world run0
            | Some h \<Rightarrow> fst res = fst (h (r\<lparr>EnrollID := normalizer s e\<rparr>) m (world run0))
                       \<and> world (snd res) = snd (h (r\<lparr>EnrollID := normalizer s e\<rparr>) m (world run0)))"
    if "Validate (normalizer s e) = None" "Enrollment m = e" for m
    using that DeclarativeManagement_accepted [where r = r and s = s and m = m and ?run0.0 = run0 and Validate = Validate] by (simp add: Let_def)
  have a8:
    "
    (let res = GetToken Validate s r m run0
         in case gt s of
              None \<Rightarrow> fst res = (None, Some (ErrorString ''no GetToken handler''))
                       \<and> world (snd res) = world run0
            | Some h \<Rightarrow> fst res = fst (h (r\<lparr>EnrollID := normalizer s e\<rparr>) m (world run0))
                       \<and> world (snd res) = snd (h (r\<lparr>EnrollID := normalizer s e\<rparr>) m (world run0)))"
    if "Validate (normalizer s e) = None" "Enrollment m = e" for m
    using that GetToken_accepted [where r = r and s = s and m = m and ?run0.0 = run0 and Validate = Validate] by (simp add: Let_def)
  have a9:
    "
    (let sr = StoreCommandReport (store s) (r\<lparr>EnrollID := normalizer s e\<rparr>) m (world run0);
             rn = RetrieveNextCommand (store s) (r\<lparr>EnrollID := normalizer s e\<rparr>) (Status m = ''NotNow'') (snd sr);
             res = CommandAndReportResults Validate s r m run0
         in fst res
              = (case fst sr of
                   Some e \<Rightarrow> (None, Some (WrapError ''storing command report: '' e))
                 | None \<Rightarrow>
                     (case snd (fst rn) of
                        Some e \<Rightarrow> (None, Some (WrapError ''retrieving next command: '' e))
                      | None \<Rightarrow> (fst (fst rn), None)))
          \<and> world (snd res) = (case fst sr of Some e \<Rightarrow> snd sr | None \<Rightarrow> snd rn))"
    if "Validate (normalizer s e) = None" "Enrollment m = e" for m
    using that CommandAndReportResults_accepted [where r = r and s = s and m = m and ?run0.0 = run0 and Validate = Validate] by (simp add: Let_def)
  have accepted:
    "Validate (normalizer s e) = None \<longrightarrow>
        (\<forall>m. Enrollment m = e \<longrightarrow>
            (let sa = StoreAuthenticate (store s) (r\<lparr>EnrollID := normalizer s e\<rparr>) m (world run0);
                 cq = ClearQueue (store s) (r\<lparr>EnrollID := normalizer s e\<rparr>) (snd sa);
                 di = Disable (store s) (r\<lparr>EnrollID := normalizer s e\<rparr>) (snd cq);
                 res = Authenticate Validate s r m run0
             in fst res = (if fst sa \<noteq> None then fst sa else if fst cq \<noteq> None then fst cq else fst di)
              \<and> world (snd res)
                  = (if fst sa \<noteq> None then snd sa else if fst cq \<noteq> None then snd cq else snd di)))
      \<and> (\<forall>m. Enrollment m = e \<longrightarrow>
            fst (TokenUpdate Validate s r m run0) = fst (StoreTokenUpdate (store s) (r\<lparr>EnrollID := normalizer s e\<rparr>) m (world run0))
          \<and> world (snd (TokenUpdate Validate s r m run0))
              = snd (StoreTokenUpdate (store s) (r\<lparr>EnrollID := normalizer s e\<rparr>) m (world run0)))
      \<and> (\<forall>m. Enrollment m = e \<longrightarrow>
            fst (CheckOut Validate s r m run0) = fst (Disable (store s) (r\<lparr>EnrollID := normalizer s e\<rparr>) (world run0))
          \<and> world (snd (CheckOut Validate s r m run0))
              = snd (Disable (store s) (r\<lparr>EnrollID := normalizer s e\<rparr>) (world run0)))
      \<and> (\<forall>m. Enrollment m = e \<longrightarrow>
            (let res = UserAuthenticate Validate s r m run0
             in case ua s of
                  None \<Rightarrow> fst res = ('''', Some (ErrorString ''no UserAuthenticate handler''))
                           \<and> world (snd res) = world run0
                | Some h \<Rightarrow> fst res = fst (h (r\<lparr>EnrollID := normalizer s e\<rparr>) m (world run0))
                           \<and> world (snd res) = snd (h (r\<lparr>EnrollID := normalizer s e\<rparr>) m (world run0))))
      \<and> (\<forall>m. Enrollment m = e \<longrightarrow>
            fst (SetBootstrapToken Validate s r m run0) = fst (StoreBootstrapToken (store s) (r\<lparr>EnrollID := normalizer s e\<rparr>) m (world run0))
          \<and> world (snd (SetBootstrapToken Validate s r m run0))
              = snd (StoreBootstrapToken (store s) (r\<lparr>EnrollID := normalizer s e\<rparr>) m (world run0)))
      \<and> (\<forall>m. Enrollment m = e \<longrightarrow>
            fst (GetBootstrapToken Validate s r m run0) = fst (RetrieveBootstrapToken (store s) (r\<lparr>EnrollID := normalizer s e\<rparr>) m (world run0))
          \<and> world (snd (GetBootstrapToken Validate s r m run0))
              = snd (RetrieveBootstrapToken (store s) (r\<lparr>EnrollID := normalizer s e\<rparr>) m (world run0)))
      \<and> (\<forall>m. Enrollment m = e \<longrightarrow>
            (let res = DeclarativeManagement Validate s r m run0
             in case dm s of
                  None \<Rightarrow> fst res = ('''', Some (ErrorString ''no Declarative Management handler''))
                           \<and> world (snd res) = world run0
                | Some h \<Rightarrow> fst res = fst (h (r\<lparr>EnrollID := normalizer s e\<rparr>) m (world run0))
                           \<and> world (snd res) = snd (h (r\<lparr>EnrollID := normalizer s e\<rparr>) m (world run0))))
      \<and> (\<forall>m. Enrollment m = e \<longrightarrow>
            (let res = GetToken Validate s r m run0
             in case gt s of
                  None \<Rightarrow> fst res = (None, Some (ErrorString ''no GetToken handler''))
                           \<and> world (snd res) = world run0
                | Some h \<Rightarrow> fst res = fst (h (r\<lparr>EnrollID := normalizer s e\<rparr>) m (world run0))
                           \<and> world (snd res) = snd (h (r\<lparr>EnrollID := normalizer s e\<rparr>) m (world run0))))
      \<and> (\<forall>m. Enrollment m = e \<longrightarrow>
            (let sr = StoreCommandReport (store s) (r\<lparr>EnrollID := normalizer s e\<rparr>) m (world run0);
                 rn = RetrieveNextCommand (store s) (r\<lparr>EnrollID := normalizer s e\<rparr>) (Status m = ''NotNow'') (snd sr);
                 res = CommandAndReportResults Validate s r m run0
             in fst res
                  = (case fst sr of
                       Some e \<Rightarrow> (None, Some (WrapError ''storing command report: '' e))
                     | None \<Rightarrow>
                         (case snd (fst rn) of
                            Some e \<Rightarrow> (None, Some (WrapError ''retrieving next command: '' e))
                          | None \<Rightarrow> (fst (fst rn), None)))
              \<and> world (snd res) = (case fst sr of Some e \<Rightarrow> snd sr | None \<Rightarrow> snd rn)))"
    using a1 a2 a3 a4 a5 a6 a7 a8 a9 by blast
  show ?thesis
    by (intro conjI; (fact first k1 k2 k3 k4 k5 k6 k7 k8 k9 refused accepted))
qed

lemma example_enrollments_empty:
  "Enrollment authenticate_empty = empty_enrollment"
  "Enrollment report_empty = empty_enrollment"
  "Enrollment user_authenticate_AAA = device_AAA"
  by (simp_all add: authenticate_empty_def report_empty_def user_authenticate_AAA_def)

lemma Validate_nil: "example_Validate None = Some (ErrorString ''nil enrollment ID'')"
  by (simp add: example_Validate_def)

lemma setupRequest_overwriting:
  "setupRequest example_Validate example_service request_AAA empty_enrollment start
     = ((request_AAA\<lparr>EnrollID := None\<rparr>, Some (ErrorString ''nil enrollment ID'')),
        \<lparr>world = [], events = [Debug [LStr ''msg'', LStr ''overwriting enrollment id'']]\<rparr>)"
  by (simp add: setupRequest_def example_service_fields normalize_empty_enrollment Validate_nil
      request_AAA_def emit_def start_def)

theorem normalization_first_and_failure_short_circuits_witness:
  "example_Validate (normalizer example_service empty_enrollment)
     = Some (ErrorString ''nil enrollment ID'')
   \<and> Enrollment authenticate_empty = empty_enrollment
   \<and> Authenticate example_Validate example_service request_AAA authenticate_empty start
       = (Some (ErrorString ''nil enrollment ID''),
          \<lparr>world = [], events = [Debug [LStr ''msg'', LStr ''overwriting enrollment id'']]\<rparr>)
   \<and> Enrollment report_empty = empty_enrollment
   \<and> CommandAndReportResults example_Validate example_service request_AAA report_empty start
       = ((None, Some (ErrorString ''nil enrollment ID'')),
          \<lparr>world = [], events = [Debug [LStr ''msg'', LStr ''overwriting enrollment id'']]\<rparr>)
   \<and> Enrollment authenticate_AAA = device_AAA
   \<and> calls_carry (fresh_request\<lparr>EnrollID := normalizer example_service device_AAA\<rparr>) (events start)
        (events (snd (Authenticate example_Validate example_service fresh_request authenticate_AAA
                        start)))
   \<and> example_Validate (normalizer example_service device_AAA) = None
   \<and> Enrollment token_update_AAA = device_AAA
   \<and> fst (TokenUpdate example_Validate example_service fresh_request token_update_AAA start) = None
   \<and> world (snd (TokenUpdate example_Validate example_service fresh_request token_update_AAA start))
       = [''StoreTokenUpdate'']"
proof -
  have v: "example_Validate (normalizer example_service empty_enrollment)
             = Some (ErrorString ''nil enrollment ID'')"
    by (simp add: example_service_fields normalize_empty_enrollment Validate_nil)
  have va: "example_Validate (normalizer example_service device_AAA) = None"
    by (simp add: example_service_fields normalize_device_AAA Validate_AAA)
  have et: "Enrollment token_update_AAA = device_AAA"
    by (simp add: token_update_AAA_def)
  note at_empty = normalization_first_and_failure_short_circuits
      [where Validate = example_Validate and s = example_service and r = request_AAA
         and e = empty_enrollment and ?run0.0 = start and err = "ErrorString ''nil enrollment ID''"]
  note at_AAA = normalization_first_and_failure_short_circuits
      [where Validate = example_Validate and s = example_service and r = fresh_request
         and e = device_AAA and ?run0.0 = start and err = "ErrorString ''nil enrollment ID''"]
  note rest = conjunct2
  note refused = at_empty [THEN rest, THEN rest, THEN rest, THEN rest, THEN rest, THEN rest,
      THEN rest, THEN rest, THEN rest, THEN rest, THEN conjunct1, THEN mp, OF v, unfolded Let_def]
  note carried = at_AAA [THEN rest, THEN conjunct1, THEN spec, THEN mp]
  note accepted = at_AAA [THEN rest, THEN rest, THEN rest, THEN rest, THEN rest, THEN rest,
      THEN rest, THEN rest, THEN rest, THEN rest, THEN rest, THEN mp, OF va]
  have a: "Authenticate example_Validate example_service request_AAA authenticate_empty start
       = (Some (ErrorString ''nil enrollment ID''),
          \<lparr>world = [], events = [Debug [LStr ''msg'', LStr ''overwriting enrollment id'']]\<rparr>)"
    using refused [THEN rest, THEN rest, THEN rest, THEN conjunct1, THEN spec, THEN mp,
                   OF example_enrollments_empty(1)]
    by (simp add: setupRequest_overwriting)
  have c: "CommandAndReportResults example_Validate example_service request_AAA report_empty start
       = ((None, Some (ErrorString ''nil enrollment ID'')),
          \<lparr>world = [], events = [Debug [LStr ''msg'', LStr ''overwriting enrollment id'']]\<rparr>)"
    using refused [THEN rest, THEN rest, THEN rest, THEN rest, THEN rest, THEN rest, THEN rest,
                   THEN rest, THEN rest, THEN rest, THEN rest, THEN spec, THEN mp,
                   OF example_enrollments_empty(2)]
    by (simp add: setupRequest_overwriting)
  have k: "calls_carry (fresh_request\<lparr>EnrollID := normalizer example_service device_AAA\<rparr>)
        (events start)
        (events (snd (Authenticate example_Validate example_service fresh_request authenticate_AAA
                        start)))"
    using carried [OF example_enrollments(1)] .
  have t: "fst (TokenUpdate example_Validate example_service fresh_request token_update_AAA start) = None
      \<and> world (snd (TokenUpdate example_Validate example_service fresh_request token_update_AAA
                       start)) = [''StoreTokenUpdate'']"
    using accepted [THEN rest, THEN conjunct1, THEN spec, THEN mp, OF et]
    by (simp add: example_service_fields journal_store_def start_def)
  from v a c k va et t example_enrollments(1) example_enrollments_empty(1,2)
  show ?thesis by blast
qed

text \<open>
  Claim C5. For a \<^verbatim>\<open>UserAuthenticate\<close>, \<^verbatim>\<open>DeclarativeManagement\<close> or \<^verbatim>\<open>GetToken\<close> message that
  passes normalization: when the handler is not configured the service returns an error that
  says so (the error of the spec's kind NotImplemented, in the code a plain
  \<^verbatim>\<open>errors.New\<close>), with the world unchanged and no storage or handler call; when it is
  configured the service calls it once with the normalized request and the message, and returns
  exactly its result, with no storage call.
\<close>

theorem optional_handlers:
  "(Validate (normalizer s (Enrollment uam)) = None \<longrightarrow>
      (let r' = r\<lparr>EnrollID := normalizer s (Enrollment uam)\<rparr>;
           res = UserAuthenticate Validate s r uam run0
       in storage_calls (events (snd res)) = storage_calls (events run0)
        \<and> (case ua s of
              None \<Rightarrow>
                fst res = ('''', Some (ErrorString ''no UserAuthenticate handler''))
                \<and> world (snd res) = world run0
                \<and> handler_calls (events (snd res)) = handler_calls (events run0)
            | Some h \<Rightarrow>
                fst res = fst (h r' uam (world run0))
                \<and> world (snd res) = snd (h r' uam (world run0))
                \<and> handler_calls (events (snd res))
                    = handler_calls (events run0) @ [Call_UserAuthenticate r' uam])))
   \<and> (Validate (normalizer s (Enrollment dmm)) = None \<longrightarrow>
      (let r' = r\<lparr>EnrollID := normalizer s (Enrollment dmm)\<rparr>;
           res = DeclarativeManagement Validate s r dmm run0
       in storage_calls (events (snd res)) = storage_calls (events run0)
        \<and> (case dm s of
              None \<Rightarrow>
                fst res = ('''', Some (ErrorString ''no Declarative Management handler''))
                \<and> world (snd res) = world run0
                \<and> handler_calls (events (snd res)) = handler_calls (events run0)
            | Some h \<Rightarrow>
                fst res = fst (h r' dmm (world run0))
                \<and> world (snd res) = snd (h r' dmm (world run0))
                \<and> handler_calls (events (snd res))
                    = handler_calls (events run0) @ [Call_DeclarativeManagement r' dmm])))
   \<and> (Validate (normalizer s (Enrollment gtm)) = None \<longrightarrow>
      (let r' = r\<lparr>EnrollID := normalizer s (Enrollment gtm)\<rparr>;
           res = GetToken Validate s r gtm run0
       in storage_calls (events (snd res)) = storage_calls (events run0)
        \<and> (case gt s of
              None \<Rightarrow>
                fst res = (None, Some (ErrorString ''no GetToken handler''))
                \<and> world (snd res) = world run0
                \<and> handler_calls (events (snd res)) = handler_calls (events run0)
            | Some h \<Rightarrow>
                fst res = fst (h r' gtm (world run0))
                \<and> world (snd res) = snd (h r' gtm (world run0))
                \<and> handler_calls (events (snd res))
                    = handler_calls (events run0) @ [Call_GetToken r' gtm])))"
proof (intro conjI impI)
  assume v: "Validate (normalizer s (Enrollment uam)) = None"
  show "let r' = r\<lparr>EnrollID := normalizer s (Enrollment uam)\<rparr>;
           res = UserAuthenticate Validate s r uam run0
       in storage_calls (events (snd res)) = storage_calls (events run0)
        \<and> (case ua s of
              None \<Rightarrow>
                fst res = ('''', Some (ErrorString ''no UserAuthenticate handler''))
                \<and> world (snd res) = world run0
                \<and> handler_calls (events (snd res)) = handler_calls (events run0)
            | Some h \<Rightarrow>
                fst res = fst (h r' uam (world run0))
                \<and> world (snd res) = snd (h r' uam (world run0))
                \<and> handler_calls (events (snd res))
                    = handler_calls (events run0) @ [Call_UserAuthenticate r' uam])"
    unfolding UserAuthenticate_def Let_def
    by (subst (1 2 3 4 5 6 7) setupRequest_eq)
      (simp add: v setupRequest_frame call_result emit_def storage_calls_append
        handler_calls_append split: option.splits,
       simp add: storage_calls_def handler_calls_def)
next
  assume v: "Validate (normalizer s (Enrollment dmm)) = None"
  show "let r' = r\<lparr>EnrollID := normalizer s (Enrollment dmm)\<rparr>;
           res = DeclarativeManagement Validate s r dmm run0
       in storage_calls (events (snd res)) = storage_calls (events run0)
        \<and> (case dm s of
              None \<Rightarrow>
                fst res = ('''', Some (ErrorString ''no Declarative Management handler''))
                \<and> world (snd res) = world run0
                \<and> handler_calls (events (snd res)) = handler_calls (events run0)
            | Some h \<Rightarrow>
                fst res = fst (h r' dmm (world run0))
                \<and> world (snd res) = snd (h r' dmm (world run0))
                \<and> handler_calls (events (snd res))
                    = handler_calls (events run0) @ [Call_DeclarativeManagement r' dmm])"
    unfolding DeclarativeManagement_def Let_def
    by (subst (1 2 3 4 5 6 7) setupRequest_eq)
      (simp add: v setupRequest_frame call_result emit_def storage_calls_append
        handler_calls_append split: option.splits,
       simp add: storage_calls_def handler_calls_def)
next
  assume v: "Validate (normalizer s (Enrollment gtm)) = None"
  show "let r' = r\<lparr>EnrollID := normalizer s (Enrollment gtm)\<rparr>;
           res = GetToken Validate s r gtm run0
       in storage_calls (events (snd res)) = storage_calls (events run0)
        \<and> (case gt s of
              None \<Rightarrow>
                fst res = (None, Some (ErrorString ''no GetToken handler''))
                \<and> world (snd res) = world run0
                \<and> handler_calls (events (snd res)) = handler_calls (events run0)
            | Some h \<Rightarrow>
                fst res = fst (h r' gtm (world run0))
                \<and> world (snd res) = snd (h r' gtm (world run0))
                \<and> handler_calls (events (snd res))
                    = handler_calls (events run0) @ [Call_GetToken r' gtm])"
    unfolding GetToken_def Let_def
    by (subst (1 2 3 4 5 6 7) setupRequest_eq)
      (simp add: v setupRequest_frame call_result emit_def storage_calls_append
        handler_calls_append split: option.splits,
       simp add: storage_calls_def handler_calls_def)
qed

theorem optional_handlers_witness:
  "example_Validate (normalizer example_service (Enrollment user_authenticate_AAA)) = None
   \<and> ua example_service = None
   \<and> fst (UserAuthenticate example_Validate example_service fresh_request user_authenticate_AAA start)
       = ('''', Some (ErrorString ''no UserAuthenticate handler''))
   \<and> world (snd (UserAuthenticate example_Validate example_service fresh_request
                    user_authenticate_AAA start)) = []
   \<and> storage_calls (events (snd (UserAuthenticate example_Validate example_service fresh_request
                                    user_authenticate_AAA start))) = []
   \<and> handler_calls (events (snd (UserAuthenticate example_Validate example_service fresh_request
                                    user_authenticate_AAA start))) = []
   \<and> example_Validate (normalizer service_with_ua (Enrollment user_authenticate_AAA)) = None
   \<and> ua service_with_ua = Some echo_ua
   \<and> fst (UserAuthenticate example_Validate service_with_ua fresh_request user_authenticate_AAA start)
       = (''abc'', None)
   \<and> world (snd (UserAuthenticate example_Validate service_with_ua fresh_request
                    user_authenticate_AAA start)) = [''UserAuthenticate'']
   \<and> storage_calls (events (snd (UserAuthenticate example_Validate service_with_ua fresh_request
                                    user_authenticate_AAA start))) = []
   \<and> handler_calls (events (snd (UserAuthenticate example_Validate service_with_ua fresh_request
                                    user_authenticate_AAA start)))
       = [Call_UserAuthenticate request_AAA user_authenticate_AAA]"
proof -
  have v: "example_Validate (normalizer example_service (Enrollment user_authenticate_AAA)) = None"
          "example_Validate (normalizer service_with_ua (Enrollment user_authenticate_AAA)) = None"
    by (simp_all add: example_service_fields service_with_ua_fields example_enrollments_empty
        normalize_device_AAA Validate_AAA)
  have empty: "storage_calls (events start) = []" "handler_calls (events start) = []"
      "world start = []"
    by (simp_all add: start_def storage_calls_def handler_calls_def)
  have absent:
    "fst (UserAuthenticate example_Validate example_service fresh_request user_authenticate_AAA start)
       = ('''', Some (ErrorString ''no UserAuthenticate handler''))
     \<and> world (snd (UserAuthenticate example_Validate example_service fresh_request
                    user_authenticate_AAA start)) = []
     \<and> storage_calls (events (snd (UserAuthenticate example_Validate example_service fresh_request
                                    user_authenticate_AAA start))) = []
     \<and> handler_calls (events (snd (UserAuthenticate example_Validate example_service fresh_request
                                    user_authenticate_AAA start))) = []"
    using optional_handlers
            [where Validate = example_Validate and s = example_service and r = fresh_request
               and uam = user_authenticate_AAA and ?run0.0 = start]
          v(1) empty
    by (simp add: example_service_fields Let_def)
  have present:
    "fst (UserAuthenticate example_Validate service_with_ua fresh_request user_authenticate_AAA start)
       = (''abc'', None)
     \<and> world (snd (UserAuthenticate example_Validate service_with_ua fresh_request
                    user_authenticate_AAA start)) = [''UserAuthenticate'']
     \<and> storage_calls (events (snd (UserAuthenticate example_Validate service_with_ua fresh_request
                                    user_authenticate_AAA start))) = []
     \<and> handler_calls (events (snd (UserAuthenticate example_Validate service_with_ua fresh_request
                                    user_authenticate_AAA start)))
       = [Call_UserAuthenticate request_AAA user_authenticate_AAA]"
    using optional_handlers
            [where Validate = example_Validate and s = service_with_ua and r = fresh_request
               and uam = user_authenticate_AAA and ?run0.0 = start]
          v(2) empty
    by (simp add: service_with_ua_fields example_enrollments_empty normalize_device_AAA
        fresh_request_installed echo_ua_def user_authenticate_AAA_def Let_def)
  from v absent present example_service_fields(3) service_with_ua_fields(3)
  show ?thesis by blast
qed

section \<open>Properties of the HTTP handlers\<close>

lemma copy_params_lookup:
  "distinct (map fst q) \<Longrightarrow> list_all (\<lambda>(k, v). v \<noteq> []) q \<Longrightarrow>
   \<exists>ps. copy_params q m = Return ps
      \<and> (\<forall>k. ps k = (case map_of q k of None \<Rightarrow> m k | Some v \<Rightarrow> Some (hd v)))"
proof (induction q arbitrary: m)
  case Nil
  then show ?case by simp
next
  case (Cons kv q)
  obtain k v where kv: "kv = (k, v)" by (cases kv)
  from Cons.prems kv obtain x xs where v: "v = x # xs"
    by (cases v) auto
  from Cons.prems kv have d: "distinct (map fst q)" "list_all (\<lambda>(k, v). v \<noteq> []) q"
      and fresh: "map_of q k = None"
    by (auto simp: map_of_eq_None_iff)
  from Cons.IH [OF d, of "m(k \<mapsto> x)"] obtain ps where ps:
    "copy_params q (m(k \<mapsto> x)) = Return ps"
    "\<forall>k'. ps k' = (case map_of q k' of None \<Rightarrow> (m(k \<mapsto> x)) k' | Some v \<Rightarrow> Some (hd v))"
    by blast
  have "copy_params (kv # q) m = Return ps"
    by (simp add: kv v ps(1))
  moreover have "\<forall>k'. ps k' = (case map_of (kv # q) k' of None \<Rightarrow> m k' | Some v \<Rightarrow> Some (hd v))"
    using ps(2) fresh by (auto simp: kv v split: option.splits)
  ultimately show ?case by blast
qed

text \<open>
  Claim C10. \<^verbatim>\<open>r.URL.Query()\<close> is a map, so its entries have distinct keys, and
  \<^verbatim>\<open>url.ParseQuery\<close> gives every key at least one value. On such a query
  \<^verbatim>\<open>RequestFromHTTP\<close> returns a request carrying the certificate and no enrollment id; with
  no query parameter its \<^verbatim>\<open>Params\<close> is nil; otherwise \<^verbatim>\<open>Params\<close> maps exactly the keys of the
  query, each to the first of its values, whatever the order in which the loop visits them.
\<close>

theorem RequestFromHTTP_first_values:
  assumes "distinct (map fst (URL_Query r))" and "list_all (\<lambda>(k, v). v \<noteq> []) (URL_Query r)"
  shows "\<exists>m. RequestFromHTTP r = Return m
           \<and> EnrollID m = None \<and> Certificate m = GetCert r
           \<and> (if URL_Query r = [] then Params m = None
              else \<exists>ps. Params m = Some ps
                      \<and> (\<forall>k. ps k = map_option hd (map_of (URL_Query r) k)))"
proof (cases "URL_Query r = []")
  case True
  then show ?thesis by (simp add: RequestFromHTTP_def)
next
  case False
  from copy_params_lookup [OF assms, of Map.empty] obtain ps where ps:
    "copy_params (URL_Query r) Map.empty = Return ps"
    "\<forall>k. ps k = (case map_of (URL_Query r) k of None \<Rightarrow> None | Some v \<Rightarrow> Some (hd v))"
    by blast
  have "\<forall>k. ps k = map_option hd (map_of (URL_Query r) k)"
    using ps(2) by (simp add: map_option_case)
  with False ps(1) show ?thesis
    by (simp add: RequestFromHTTP_def Let_def)
qed

theorem RequestFromHTTP_first_values_witness:
  "distinct (map fst (URL_Query http_two_params))
   \<and> list_all (\<lambda>(k, v). v \<noteq> []) (URL_Query http_two_params)
   \<and> map_of (URL_Query http_two_params) ''id'' = Some [''a'', ''b'']
   \<and> (\<exists>m ps. RequestFromHTTP http_two_params = Return m
          \<and> Certificate m = Some ''DER''
          \<and> Params m = Some ps
          \<and> ps ''id'' = Some ''a'' \<and> ps ''x'' = Some ''1'' \<and> ps ''y'' = None)
   \<and> distinct (map fst (URL_Query http_no_params))
   \<and> list_all (\<lambda>(k, v). v \<noteq> []) (URL_Query http_no_params)
   \<and> (\<exists>m. RequestFromHTTP http_no_params = Return m \<and> Params m = None)"
proof -
  have h2: "distinct (map fst (URL_Query http_two_params))"
           "list_all (\<lambda>(k, v). v \<noteq> []) (URL_Query http_two_params)"
    by (simp_all add: http_two_params_def)
  have h0: "distinct (map fst (URL_Query http_no_params))"
           "list_all (\<lambda>(k, v). v \<noteq> []) (URL_Query http_no_params)"
    by (simp_all add: http_no_params_def)
  have l: "map_of (URL_Query http_two_params) ''id'' = Some [''a'', ''b'']"
    by (simp add: http_two_params_def)
  have two: "\<exists>m ps. RequestFromHTTP http_two_params = Return m
          \<and> Certificate m = Some ''DER''
          \<and> Params m = Some ps
          \<and> ps ''id'' = Some ''a'' \<and> ps ''x'' = Some ''1'' \<and> ps ''y'' = None"
    using RequestFromHTTP_first_values [OF h2]
    by (auto simp: http_two_params_def)
  have none: "\<exists>m. RequestFromHTTP http_no_params = Return m \<and> Params m = None"
    using RequestFromHTTP_first_values [OF h0]
    by (auto simp: http_no_params_def)
  from h2 h0 l two none show ?thesis by blast
qed






end
